theory Spec2Isabelle
  imports
    Complex_Main
    "HOL-Library.Char_ord"
    "HOL-Library.List_Lexorder"
    "HOL-Library.Product_Lexorder"
    "HOL-Library.AList"
begin

chapter \<open>Alanine scanning and MPI scheduling of haddock3: a shallow embedding\<close>

text \<open>
  The theory embeds \<^verbatim>\<open>haddock/libs/libmpi.py\<close> (\<^verbatim>\<open>MPIScheduler\<close>) and
  \<^verbatim>\<open>haddock/modules/analysis/alascan/scan.py\<close> (\<^verbatim>\<open>mutate\<close>, \<^verbatim>\<open>calc_score\<close>,
  \<^verbatim>\<open>add_zscores\<close>, \<^verbatim>\<open>alascan_cluster_analysis\<close>, \<^verbatim>\<open>Scan.run\<close>).

  Conventions.
  \<^item> A Python \<^verbatim>\<open>str\<close> is a \<^typ>\<open>string\<close>; comparison of strings is the lexicographic
    order on character codes, as in Python.
  \<^item> A raised exception is a value \<open>Inl e\<close> of \<open>py_error + 'a\<close>; a loop stops at the first one.
  \<^item> A Python \<^verbatim>\<open>dict\<close> whose iteration order matters is an association list in
    insertion order: \<^const>\<open>AList.update\<close> overwrites in place or appends, as a dict does.
  \<^item> A float is a \<open>pyfloat\<close>: either not-a-number or a real. Finite arithmetic is exact;
    rounding, infinities and signed zeros are outside the model.
  \<^item> What the code does to the outside (processes, files, the log) is recorded as a
    list of events, in program order.
\<close>

section \<open>Definitions\<close>

subsection \<open>Python values\<close>

datatype py_error =
    IndexError
  | ValueError
  | TypeError
  | KeyError string
  | UnboundLocalError string
  | FileNotFoundError string
  | ZeroDivisionError
  | Exception string
  | SystemExit "int option"

text \<open>\<^verbatim>\<open>str(n)\<close> for a non-negative integer, and for any integer.\<close>

fun str_nat :: "nat \<Rightarrow> string" where
  "str_nat n =
     (if n < 10 then [''0123456789'' ! n]
      else str_nat (n div 10) @ [''0123456789'' ! (n mod 10)])"

declare str_nat.simps [simp del]

definition str_int :: "int \<Rightarrow> string" where
  "str_int i = (if i < 0 then CHR ''-'' # str_nat (nat (- i)) else str_nat (nat i))"

text \<open>\<^verbatim>\<open>s.startswith(p)\<close>.\<close>

definition startswith :: "string \<Rightarrow> string \<Rightarrow> bool" where
  "startswith p s = (take (length p) s = p)"

subsection \<open>libmpi.py: MPIScheduler\<close>

text \<open>
  The scheduler object. \<open>tasks\<close> are opaque; \<open>ncores\<close> is \<^verbatim>\<open>Optional[int]\<close>; \<open>cwd\<close> is
  \<^verbatim>\<open>Path.cwd()\<close> as text.
\<close>

record 'task MPIScheduler =
  tasks :: "'task list"
  cwd :: string
  ncores :: "int option"

text \<open>
  The outside of \<^verbatim>\<open>MPIScheduler.run\<close>: \<open>find_executable\<close> is
  \<^verbatim>\<open>distutils.spawn.find_executable\<close> (\<open>None\<close> when the program is not on the path), and
  \<open>driver_stderr\<close> gives, for a command line, the decoded standard error of the process
  that \<^verbatim>\<open>subprocess.run(shlex.split(cmd), ...)\<close> ran.
\<close>

record mpi_system =
  find_executable :: "string \<Rightarrow> string option"
  driver_stderr :: "string \<Rightarrow> string"

datatype mpi_event =
    Pickled string
  | LogInfo string
  | LogDebug string
  | LogError string
  | SubprocessRun string

text \<open>An f-string field holding \<^verbatim>\<open>self.ncores\<close>.\<close>

definition fmt_ncores :: "int option \<Rightarrow> string" where
  "fmt_ncores n = (case n of None \<Rightarrow> ''None'' | Some k \<Rightarrow> str_int k)"

text \<open>\<^verbatim>\<open>Path(self.cwd, "mpi.pkl")\<close> as text.\<close>

definition pickle_path :: "string \<Rightarrow> string" where
  "pickle_path d = (if d \<noteq> [] \<and> last d = CHR ''/'' then d @ ''mpi.pkl'' else d @ ''/mpi.pkl'')"

text \<open>\<^verbatim>\<open>_pickle_tasks\<close>: writes the task list to the artifact and returns its path.\<close>

definition pickle_tasks :: "'task MPIScheduler \<Rightarrow> mpi_event list \<times> string" where
  "pickle_tasks self =
     (let fpath = pickle_path (cwd self)
      in ([LogDebug (''Pickling the tasks at '' @ fpath), Pickled fpath], fpath))"

text \<open>
  \<^verbatim>\<open>MPIScheduler.run\<close>. The result is the list of events in program order and how the
  call ended: \<open>Inr ()\<close> for a normal return, \<open>Inl (SystemExit a)\<close> for \<^verbatim>\<open>sys.exit(a)\<close>
  (\<open>a = None\<close> for \<^verbatim>\<open>sys.exit()\<close>).
\<close>

definition MPIScheduler_run ::
  "mpi_system \<Rightarrow> 'task MPIScheduler \<Rightarrow> mpi_event list \<times> (py_error + unit)" where
  "MPIScheduler_run sys self =
     (let (ev0, pkl_tasks) = pickle_tasks self;
          ev1 = ev0 @ [LogInfo (''Executing tasks with the haddock3-mpitask runner using ''
                                 @ fmt_ncores (ncores self) @ '' processors...'')];
          launch = (\<lambda>cmd.
             let ev2 = ev1 @ [LogDebug (''MPI cmd is '' @ cmd), SubprocessRun cmd];
                 err = driver_stderr sys cmd
             in if err \<noteq> [] then (ev2 @ [LogError err], Inl (SystemExit None))
                else (ev2, Inr ()))
      in if find_executable sys ''mpirun'' \<noteq> None then
           launch (''mpirun -np '' @ fmt_ncores (ncores self) @ '' haddock3-mpitask '' @ pkl_tasks)
         else if find_executable sys ''srun'' \<noteq> None then
           launch (''srun haddock3-mpitask '' @ pkl_tasks)
         else
           (ev1 @ [LogError ''mpirun or srun are not available on the system''],
            Inl (SystemExit None)))"

text \<open>
  The exit status of an interpreter that ends on an uncaught \<^verbatim>\<open>SystemExit\<close>: the integer
  argument, and zero when the argument is \<^verbatim>\<open>None\<close>.
\<close>

definition exit_status :: "int option \<Rightarrow> int" where
  "exit_status a = (case a of None \<Rightarrow> 0 | Some n \<Rightarrow> n)"

text \<open>The command lines that a run handed to \<^verbatim>\<open>subprocess.run\<close>.\<close>

definition launched :: "mpi_event list \<Rightarrow> string list" where
  "launched evs = [c. SubprocessRun c \<leftarrow> evs]"

definition mpirun_cmd :: "'task MPIScheduler \<Rightarrow> string" where
  "mpirun_cmd self =
     ''mpirun -np '' @ fmt_ncores (ncores self) @ '' haddock3-mpitask '' @ pickle_path (cwd self)"

definition srun_cmd :: "'task MPIScheduler \<Rightarrow> string" where
  "srun_cmd self = ''srun haddock3-mpitask '' @ pickle_path (cwd self)"

subsection \<open>Strings\<close>

text \<open>
  \<^verbatim>\<open>s.split(sep)\<close> for a non-empty separator: the pieces between the non-overlapping
  occurrences of \<open>sep\<close>, found from the left. \<open>cur\<close> is the piece being read. (Python
  raises on an empty separator; the code only splits on literals.)
\<close>

function split_on :: "string \<Rightarrow> string \<Rightarrow> string \<Rightarrow> string list" where
  "split_on sep cur [] = [cur]"
| "split_on sep cur (c # cs) =
     (if sep \<noteq> [] \<and> startswith sep (c # cs)
      then cur # split_on sep [] (drop (length sep) (c # cs))
      else split_on sep (cur @ [c]) cs)"
  by pat_completeness auto
termination
  by (relation "measure (\<lambda>(sep, cur, s). length s)") auto

definition py_split :: "string \<Rightarrow> string \<Rightarrow> string list" where
  "py_split sep s = split_on sep [] s"

text \<open>\<^verbatim>\<open>xs[i]\<close> for \<open>i \<ge> 0\<close>: \<^verbatim>\<open>IndexError\<close> out of range.\<close>

definition py_nth :: "'a list \<Rightarrow> nat \<Rightarrow> py_error + 'a" where
  "py_nth xs i = (if i < length xs then Inr (xs ! i) else Inl IndexError)"

text \<open>
  \<^verbatim>\<open>new.join(parts)\<close>, and \<^verbatim>\<open>s.replace(old, new)\<close> for a non-empty \<open>old\<close>, which replaces
  the non-overlapping occurrences found from the left.
\<close>

fun py_join :: "string \<Rightarrow> string list \<Rightarrow> string" where
  "py_join sep [] = []"
| "py_join sep [x] = x"
| "py_join sep (x # y # ys) = x @ sep @ py_join sep (y # ys)"

definition py_replace :: "string \<Rightarrow> string \<Rightarrow> string \<Rightarrow> string" where
  "py_replace old new s = py_join new (py_split old s)"

text \<open>
  \<^verbatim>\<open>s[i:j]\<close> for \<open>0 \<le> i \<le> j\<close> (a slice is cut at the end of the string and never
  raises), and \<^verbatim>\<open>s.strip()\<close>. A \<^typ>\<open>char\<close> stands for a code point below 256; the white
  space among these is listed in \<open>is_space\<close>.
\<close>

definition py_slice :: "'a list \<Rightarrow> nat \<Rightarrow> nat \<Rightarrow> 'a list" where
  "py_slice s i j = take (j - i) (drop i s)"

definition is_space :: "char \<Rightarrow> bool" where
  "is_space c = ((of_char c :: nat) \<in> {9, 10, 11, 12, 13, 28, 29, 30, 31, 32, 133, 160})"

definition strip :: "string \<Rightarrow> string" where
  "strip s = rev (dropWhile is_space (rev (dropWhile is_space s)))"

text \<open>
  \<^verbatim>\<open>int(s)\<close> for a string: white space around is dropped, a sign may come first, then
  decimal digits, where single underscores may stand between digits. Anything else is a
  \<^verbatim>\<open>ValueError\<close>. In \<open>parse_digits\<close> the accumulator is \<open>None\<close> until a digit is read.
\<close>

definition is_digit :: "char \<Rightarrow> bool" where
  "is_digit c = (48 \<le> (of_char c :: nat) \<and> (of_char c :: nat) \<le> 57)"

fun parse_digits :: "nat option \<Rightarrow> string \<Rightarrow> nat option" where
  "parse_digits a [] = a"
| "parse_digits a (c # cs) =
     (if is_digit c
      then parse_digits (Some ((case a of None \<Rightarrow> 0 | Some n \<Rightarrow> n) * 10 + (of_char c - 48))) cs
      else if c = CHR ''_'' \<and> a \<noteq> None \<and> (case cs of [] \<Rightarrow> False | d # ds \<Rightarrow> is_digit d)
      then parse_digits a cs
      else None)"

definition py_int :: "string \<Rightarrow> py_error + int" where
  "py_int s =
     (case strip s of
        [] \<Rightarrow> Inl ValueError
      | c # cs \<Rightarrow>
          if c = CHR ''-'' then
            (case parse_digits None cs of None \<Rightarrow> Inl ValueError | Some n \<Rightarrow> Inr (- int n))
          else if c = CHR ''+'' then
            (case parse_digits None cs of None \<Rightarrow> Inl ValueError | Some n \<Rightarrow> Inr (int n))
          else
            (case parse_digits None (c # cs) of None \<Rightarrow> Inl ValueError | Some n \<Rightarrow> Inr (int n)))"

text \<open>
  \<^verbatim>\<open>s.split()\<close>: the maximal runs of characters that are not white space. \<^verbatim>\<open>xs[-1]\<close>:
  the last element, \<^verbatim>\<open>IndexError\<close> on an empty list.
\<close>

fun split_ws :: "string \<Rightarrow> string \<Rightarrow> string list" where
  "split_ws cur [] = (if cur = [] then [] else [cur])"
| "split_ws cur (c # cs) =
     (if is_space c then (if cur = [] then split_ws [] cs else cur # split_ws [] cs)
      else split_ws (cur @ [c]) cs)"

definition py_last :: "'a list \<Rightarrow> py_error + 'a" where
  "py_last xs = (if xs = [] then Inl IndexError else Inr (last xs))"

subsection \<open>scan.py: mutate\<close>

definition ATOMS_TO_BE_MUTATED :: "string list" where
  "ATOMS_TO_BE_MUTATED = [''C'', ''N'', ''CA'', ''O'', ''CB'']"

definition RES_CODES :: "(string \<times> string) list" where
  "RES_CODES =
     [(''CYS'', ''C''), (''ASP'', ''D''), (''SER'', ''S''), (''GLN'', ''Q''), (''LYS'', ''K''),
      (''ILE'', ''I''), (''PRO'', ''P''), (''THR'', ''T''), (''PHE'', ''F''), (''ASN'', ''N''),
      (''GLY'', ''G''), (''HIS'', ''H''), (''LEU'', ''L''), (''ARG'', ''R''), (''TRP'', ''W''),
      (''ALA'', ''A''), (''VAL'', ''V''), (''GLU'', ''E''), (''TYR'', ''Y''), (''MET'', ''M'')]"

text \<open>
  The loop of \<^verbatim>\<open>mutate\<close> over the lines of the input file. The state is the list
  \<^verbatim>\<open>mut_pdb_l\<close> of lines to write and the local \<^verbatim>\<open>resname\<close>. \<^verbatim>\<open>line[21]\<close> raises
  \<^verbatim>\<open>IndexError\<close> on a short line and \<^verbatim>\<open>int(line[22:26])\<close> raises \<^verbatim>\<open>ValueError\<close> when the
  field is not a number.
\<close>

fun mutate_lines ::
  "string \<Rightarrow> int \<Rightarrow> string \<Rightarrow> string list \<Rightarrow> string list \<times> string
     \<Rightarrow> py_error + string list \<times> string" where
  "mutate_lines target_chain target_resnum mut_resname [] st = Inr st"
| "mutate_lines target_chain target_resnum mut_resname (line # rest) (mut_pdb_l, resname) =
     (if startswith ''ATOM'' line then
        (case py_nth line 21 of Inl err \<Rightarrow> Inl err | Inr chain \<Rightarrow>
         (case py_int (py_slice line 22 26) of Inl err \<Rightarrow> Inl err | Inr resnum \<Rightarrow>
          (let atom_name = strip (py_slice line 12 16)
           in if target_chain = [chain] \<and> target_resnum = resnum then
                (let resname' = (if resname = [] then strip (py_slice line 17 20) else resname)
                 in if atom_name \<in> set ATOMS_TO_BE_MUTATED then
                      mutate_lines target_chain target_resnum mut_resname rest
                        (mut_pdb_l @ [take 17 line @ mut_resname @ drop 20 line], resname')
                    else
                      mutate_lines target_chain target_resnum mut_resname rest
                        (mut_pdb_l, resname'))
              else
                mutate_lines target_chain target_resnum mut_resname rest
                  (mut_pdb_l @ [line], resname))))
      else mutate_lines target_chain target_resnum mut_resname rest (mut_pdb_l, resname))"

text \<open>
  \<^verbatim>\<open>mutate\<close>. \<open>lines\<close> is what \<^verbatim>\<open>readlines()\<close> gives for the input file and \<open>pdb_name\<close> is
  \<^verbatim>\<open>pdb_f.name\<close>. The result is the name of the file written and its text.
\<close>

definition mutate ::
  "string list \<Rightarrow> string \<Rightarrow> string \<Rightarrow> int \<Rightarrow> string \<Rightarrow> py_error + string \<times> string" where
  "mutate lines pdb_name target_chain target_resnum mut_resname =
     (case mutate_lines target_chain target_resnum mut_resname lines ([], []) of
        Inl err \<Rightarrow> Inl err
      | Inr (mut_pdb_l, resname) \<Rightarrow>
          (case map_of RES_CODES resname of
             None \<Rightarrow> Inl (KeyError resname)
           | Some ori \<Rightarrow>
               (case map_of RES_CODES mut_resname of
                  None \<Rightarrow> Inl (KeyError mut_resname)
                | Some new \<Rightarrow>
                    (let mut_id = ori @ str_int target_resnum @ new;
                         mut_pdb_fname =
                           py_replace ''.pdb'' (''-'' @ target_chain @ ''_'' @ mut_id @ ''.pdb'')
                             pdb_name
                     in Inr (mut_pdb_fname, concat mut_pdb_l)))))"

text \<open>
  What the loop does with one line, as notions of their own: whether the line is an
  \<^verbatim>\<open>ATOM\<close> record, whether it belongs to the requested chain and residue, its atom name,
  and the lines it contributes to the output.
\<close>

definition atom_record :: "string \<Rightarrow> bool" where
  "atom_record line = startswith ''ATOM'' line"

definition in_residue :: "string \<Rightarrow> int \<Rightarrow> string \<Rightarrow> bool" where
  "in_residue target_chain target_resnum line =
     (case py_nth line 21 of
        Inl err \<Rightarrow> False
      | Inr c \<Rightarrow> target_chain = [c] \<and> py_int (py_slice line 22 26) = Inr target_resnum)"

definition atom_name_of :: "string \<Rightarrow> string" where
  "atom_name_of line = strip (py_slice line 12 16)"

definition lines_written :: "string \<Rightarrow> int \<Rightarrow> string \<Rightarrow> string \<Rightarrow> string list" where
  "lines_written target_chain target_resnum mut_resname line =
     (if \<not> atom_record line then []
      else if in_residue target_chain target_resnum line then
        (if atom_name_of line \<in> set ATOMS_TO_BE_MUTATED
         then [take 17 line @ mut_resname @ drop 20 line] else [])
      else [line])"

text \<open>
  A structure file: a \<^verbatim>\<open>CA\<close> atom of serine 11, the atoms \<^verbatim>\<open>CA\<close> and \<^verbatim>\<open>CG\<close> of lysine 12,
  all of chain A, and a \<^verbatim>\<open>TER\<close> line.
\<close>

definition three_atoms :: "string list" where
  "three_atoms =
     [''ATOM      1  CA  SER A  11      1.000   2.000   3.000'' @ [CHR 0x0A],
      ''ATOM      2  CA  LYS A  12      4.000   5.000   6.000'' @ [CHR 0x0A],
      ''ATOM      3  CG  LYS A  12      7.000   8.000   9.000'' @ [CHR 0x0A],
      ''TER'' @ [CHR 0x0A]]"

subsection \<open>Floats and pandas columns\<close>

datatype pyfloat = NaN | Fl real

fun fadd :: "pyfloat \<Rightarrow> pyfloat \<Rightarrow> pyfloat" where
  "fadd (Fl a) (Fl b) = Fl (a + b)"
| "fadd _ _ = NaN"

fun fsub :: "pyfloat \<Rightarrow> pyfloat \<Rightarrow> pyfloat" where
  "fsub (Fl a) (Fl b) = Fl (a - b)"
| "fsub _ _ = NaN"

text \<open>
  Division. The code divides by an occurrence count, which is at least 1, and by a
  standard deviation it has found different from zero; a zero divisor (an infinity or
  not-a-number in numpy) does not occur and is given as \<open>NaN\<close> here.
\<close>

fun fdiv :: "pyfloat \<Rightarrow> pyfloat \<Rightarrow> pyfloat" where
  "fdiv (Fl a) (Fl b) = (if b = 0 then NaN else Fl (a / b))"
| "fdiv _ _ = NaN"

text \<open>\<^verbatim>\<open>x != 0.0\<close>: true for not-a-number.\<close>

fun fne0 :: "pyfloat \<Rightarrow> bool" where
  "fne0 NaN = True"
| "fne0 (Fl a) = (a \<noteq> 0)"

text \<open>
  \<^verbatim>\<open>Series.mean()\<close> and \<^verbatim>\<open>Series.std()\<close> of pandas, with their defaults: not-a-number
  entries are skipped (\<^verbatim>\<open>skipna=True\<close>); the standard deviation is the sample one
  (\<^verbatim>\<open>ddof=1\<close>: the squared deviations are divided by \<open>n - 1\<close>), and it is not-a-number
  when fewer than two values remain; the mean of no values is not-a-number.
\<close>

definition finite_vals :: "pyfloat list \<Rightarrow> real list" where
  "finite_vals col = [x. Fl x \<leftarrow> col]"

definition series_mean :: "pyfloat list \<Rightarrow> pyfloat" where
  "series_mean col =
     (let v = finite_vals col
      in if v = [] then NaN else Fl (sum_list v / real (length v)))"

definition series_std :: "pyfloat list \<Rightarrow> pyfloat" where
  "series_std col =
     (let v = finite_vals col; n = length v; m = sum_list v / real n
      in if n \<le> 1 then NaN
         else Fl (sqrt (sum_list (map (\<lambda>x. (x - m)\<^sup>2) v) / real (n - 1))))"

text \<open>
  \<^verbatim>\<open>add_zscores\<close>, on the column it reads: the result is the \<^verbatim>\<open>z_score\<close> column it
  adds to the dataframe.
\<close>

definition add_zscores :: "pyfloat list \<Rightarrow> pyfloat list" where
  "add_zscores col =
     (let mean_delta = series_mean col;
          std_delta = series_std col
      in if fne0 std_delta then map (\<lambda>x. fdiv (fsub x mean_delta) std_delta) col
         else map (\<lambda>x. Fl 0) col)"

subsection \<open>Models and result tables\<close>

text \<open>
  A value of \<^verbatim>\<open>clt_id\<close>: an integer or a string (they are different dict keys in
  Python even when they print alike), and how an f-string prints it.
\<close>

datatype py_id = IntId int | StrId string

definition fmt_id :: "py_id \<Rightarrow> string" where
  "fmt_id c = (case c of IntId i \<Rightarrow> str_int i | StrId s \<Rightarrow> s)"

text \<open>A value of \<^verbatim>\<open>score\<close>, as the workflow hands it over.\<close>

datatype py_val = PyNone | PyFloat pyfloat | PyStr string

text \<open>The attributes of a model (\<^verbatim>\<open>PDBFile\<close>) that the module reads.\<close>

record pdbfile =
  file_name :: string
  rel_path :: string
  score :: py_val
  clt_id :: "py_id option"

text \<open>The five delta columns, which the code always handles together.\<close>

record deltas =
  delta_score :: pyfloat
  delta_vdw :: pyfloat
  delta_elec :: pyfloat
  delta_desolv :: pyfloat
  delta_bsa :: pyfloat

text \<open>The five energy terms of one scoring.\<close>

record energies =
  en_score :: pyfloat
  en_vdw :: pyfloat
  en_elec :: pyfloat
  en_desolv :: pyfloat
  en_bsa :: pyfloat

text \<open>
  One data row of a per-structure result file \<^verbatim>\<open>scan_<name>.csv\<close>: the columns
  \<^verbatim>\<open>chain, res, ori_resname, end_resname, score, vdw, elec, desolv, bsa, delta_ori_score,
  delta_score, delta_vdw, delta_elec, delta_desolv, delta_bsa, z_score\<close>.
\<close>

record scan_row =
  chain :: string
  res :: int
  ori_resname :: string
  end_resname :: string
  mutant :: energies
  delta_ori_score :: pyfloat
  delta :: deltas
  z_score :: pyfloat

text \<open>
  An entry of \<^verbatim>\<open>clt_scan[cl_id][ident]\<close>: the running sums of the five deltas and the
  occurrence counter, which the code keeps under the key \<^verbatim>\<open>'frac_pr'\<close>.
\<close>

record clt_entry =
  acc :: deltas
  frac_pr :: nat

text \<open>
  One row of a cluster summary \<^verbatim>\<open>scan_clt_<id>.csv\<close>: the columns \<^verbatim>\<open>chain, resnum,
  resname, full_resname\<close>, the five averaged deltas, \<^verbatim>\<open>frac_pres\<close> and \<^verbatim>\<open>z_score\<close>.
  \<open>resnum\<close> is a string: the code takes it from \<^verbatim>\<open>ident.split("-")[1]\<close>.
\<close>

record clt_row =
  clt_chain :: string
  resnum :: string
  resname :: string
  full_resname :: string
  mean :: deltas
  frac_pres :: pyfloat
  clt_z_score :: pyfloat

subsection \<open>scan.py: calc\_score\<close>

text \<open>
  What \<^verbatim>\<open>subprocess.run\<close> returns for the scorer: the exit code and the decoded standard
  output. The scorer itself is a function from the command line to this result.
\<close>

record completed_process =
  returncode :: int
  stdout :: string

text \<open>\<^verbatim>\<open>os.linesep\<close> (POSIX).\<close>

definition linesep :: string where
  "linesep = [CHR 0x0A]"

text \<open>
  The locals \<^verbatim>\<open>score, vdw, elec, desolv, bsa\<close> of \<^verbatim>\<open>calc_score\<close>: \<open>None\<close> while unbound.
\<close>

record score_vars =
  v_score :: "pyfloat option"
  v_vdw :: "pyfloat option"
  v_elec :: "pyfloat option"
  v_desolv :: "pyfloat option"
  v_bsa :: "pyfloat option"

definition unbound :: score_vars where
  "unbound = \<lparr>v_score = None, v_vdw = None, v_elec = None, v_desolv = None, v_bsa = None\<rparr>"

text \<open>The two report lines that \<^verbatim>\<open>calc_score\<close> looks for.\<close>

definition score_line :: "string \<Rightarrow> bool" where
  "score_line line = startswith ''> HADDOCK-score (emscoring)'' line"

definition terms_line :: "string \<Rightarrow> bool" where
  "terms_line line = startswith ''> vdw'' line"

text \<open>
  \<^verbatim>\<open>float(ln.split()[-1])\<close> and \<^verbatim>\<open>float(ln.split(key)[1].split(",")[0])\<close>. The builtin
  \<^verbatim>\<open>float\<close> on strings is the parameter \<open>to_float\<close>: \<open>None\<close> where it raises
  \<^verbatim>\<open>ValueError\<close>.
\<close>

definition last_word :: "(string \<Rightarrow> pyfloat option) \<Rightarrow> string \<Rightarrow> py_error + pyfloat" where
  "last_word to_float line =
     (case py_last (split_ws [] line) of
        Inl err \<Rightarrow> Inl err
      | Inr w \<Rightarrow> (case to_float w of None \<Rightarrow> Inl ValueError | Some x \<Rightarrow> Inr x))"

definition field :: "(string \<Rightarrow> pyfloat option) \<Rightarrow> string \<Rightarrow> string \<Rightarrow> py_error + pyfloat" where
  "field to_float key line =
     (case py_nth (py_split key line) 1 of
        Inl err \<Rightarrow> Inl err
      | Inr t \<Rightarrow>
          (case py_nth (py_split '','' t) 0 of
             Inl err \<Rightarrow> Inl err
           | Inr w \<Rightarrow> (case to_float w of None \<Rightarrow> Inl ValueError | Some x \<Rightarrow> Inr x)))"

text \<open>The two \<^verbatim>\<open>if\<close> statements of the loop body, on one line of the report.\<close>

definition read_score_line ::
  "(string \<Rightarrow> pyfloat option) \<Rightarrow> string \<Rightarrow> score_vars \<Rightarrow> py_error + score_vars" where
  "read_score_line to_float line vars =
     (if score_line line then
        (case last_word to_float line of
           Inl err \<Rightarrow> Inl err
         | Inr x \<Rightarrow> Inr (vars\<lparr>v_score := Some x\<rparr>))
      else Inr vars)"

definition read_terms_line ::
  "(string \<Rightarrow> pyfloat option) \<Rightarrow> string \<Rightarrow> score_vars \<Rightarrow> py_error + score_vars" where
  "read_terms_line to_float line vars =
     (if terms_line line then
        (case field to_float ''vdw='' line of Inl err \<Rightarrow> Inl err | Inr a \<Rightarrow>
         (case field to_float ''elec='' line of Inl err \<Rightarrow> Inl err | Inr b \<Rightarrow>
          (case field to_float ''desolv='' line of Inl err \<Rightarrow> Inl err | Inr c \<Rightarrow>
           (case field to_float ''bsa='' line of Inl err \<Rightarrow> Inl err | Inr d \<Rightarrow>
              Inr (vars\<lparr>v_vdw := Some a, v_elec := Some b, v_desolv := Some c,
                        v_bsa := Some d\<rparr>)))))
      else Inr vars)"

fun parse_report ::
  "(string \<Rightarrow> pyfloat option) \<Rightarrow> string list \<Rightarrow> score_vars \<Rightarrow> py_error + score_vars" where
  "parse_report to_float [] vars = Inr vars"
| "parse_report to_float (line # rest) vars =
     (case read_score_line to_float line vars of
        Inl err \<Rightarrow> Inl err
      | Inr vars1 \<Rightarrow>
          (case read_terms_line to_float line vars1 of
             Inl err \<Rightarrow> Inl err
           | Inr vars2 \<Rightarrow> parse_report to_float rest vars2))"

text \<open>
  \<^verbatim>\<open>return score, vdw, elec, desolv, bsa\<close>: reading an unbound local raises
  \<^verbatim>\<open>UnboundLocalError\<close>, for the first one in this order.
\<close>

definition return_terms :: "score_vars \<Rightarrow> py_error + energies" where
  "return_terms vars =
     (case v_score vars of None \<Rightarrow> Inl (UnboundLocalError ''score'') | Some s \<Rightarrow>
      (case v_vdw vars of None \<Rightarrow> Inl (UnboundLocalError ''vdw'') | Some a \<Rightarrow>
       (case v_elec vars of None \<Rightarrow> Inl (UnboundLocalError ''elec'') | Some b \<Rightarrow>
        (case v_desolv vars of None \<Rightarrow> Inl (UnboundLocalError ''desolv'') | Some c \<Rightarrow>
         (case v_bsa vars of None \<Rightarrow> Inl (UnboundLocalError ''bsa'') | Some d \<Rightarrow>
            Inr \<lparr>en_score = s, en_vdw = a, en_elec = b, en_desolv = c, en_bsa = d\<rparr>)))))"

definition score_cmd :: "string \<Rightarrow> string \<Rightarrow> string" where
  "score_cmd pdb_f run_dir = ''haddock3-score '' @ pdb_f @ '' --full --run_dir '' @ run_dir"

text \<open>The lines \<^verbatim>\<open>out\<close> of the report.\<close>

definition report_lines :: "completed_process \<Rightarrow> string list" where
  "report_lines p = py_split linesep (stdout p)"

definition calc_score ::
  "(string \<Rightarrow> pyfloat option) \<Rightarrow> (string \<Rightarrow> completed_process) \<Rightarrow> string \<Rightarrow> string
     \<Rightarrow> py_error + energies" where
  "calc_score to_float scorer pdb_f run_dir =
     (let cmd = score_cmd pdb_f run_dir;
          p = scorer cmd;
          out = report_lines p
      in if returncode p \<noteq> 0 then Inl (Exception ''calc_score failed'')
         else (case parse_report to_float out unbound of
                 Inl err \<Rightarrow> Inl err
               | Inr vars \<Rightarrow> return_terms vars))"

text \<open>
  An instance of \<open>to_float\<close> for the examples: decimals written as an optional minus
  sign, digits and, after a point, more digits.
\<close>

definition decimal :: "string \<Rightarrow> pyfloat option" where
  "decimal s =
     (let (neg, t) = (case s of [] \<Rightarrow> (False, []) | c # cs \<Rightarrow>
                        if c = CHR ''-'' then (True, cs) else (False, s));
          whole = takeWhile (\<lambda>c. c \<noteq> CHR ''.'') t;
          frac = drop (length whole + 1) t
      in if whole = [] \<or> \<not> list_all is_digit whole \<or> \<not> list_all is_digit frac then None
         else (case parse_digits None (whole @ frac) of
                 None \<Rightarrow> None
               | Some n \<Rightarrow>
                   Some (Fl ((if neg then - 1 else 1) * real n / 10 ^ length frac))))"

text \<open>A scorer that answers every command with the same report, and one that fails.\<close>

definition full_report :: string where
  "full_report =
     ''> HADDOCK-score (emscoring) = -12.5'' @ linesep @
     ''> vdw=-3.5,elec=-20.0,desolv=1.0,air=0.0,bsa=950.0'' @ linesep"

definition good_scorer :: "string \<Rightarrow> completed_process" where
  "good_scorer cmd = \<lparr>returncode = 0, stdout = full_report\<rparr>"

definition failing_scorer :: "string \<Rightarrow> completed_process" where
  "failing_scorer cmd = \<lparr>returncode = 1, stdout = full_report\<rparr>"

definition silent_scorer :: "string \<Rightarrow> completed_process" where
  "silent_scorer cmd =
     \<lparr>returncode = 0, stdout = ''> HADDOCK-score (emscoring) = -12.5'' @ linesep\<rparr>"

subsection \<open>scan.py: Scan.run\<close>

text \<open>The attributes of a \<^verbatim>\<open>Scan\<close> object; \<open>scan_res\<close> is the target residue type.\<close>

record Scan =
  model_list :: "pdbfile list"
  output_name :: string
  core :: int
  path :: string
  scan_res :: string

text \<open>
  The outside of \<^verbatim>\<open>Scan.run\<close>: the builtin \<^verbatim>\<open>float\<close> on strings, the scorer process, the
  lines of the structure files (\<open>None\<close>: no such file), the interface that
  \<^verbatim>\<open>CAPRI.identify_interface\<close> finds for a structure (a dict from chain to residue
  numbers, in its order), and the keys \<^verbatim>\<open>(chain, resid, atom, resname)\<close> of the
  coordinates that \<^verbatim>\<open>load_coords\<close> returns, in their order. The structure files are taken
  as they are when the run starts.
\<close>

record scan_env =
  env_to_float :: "string \<Rightarrow> pyfloat option"
  env_scorer :: "string \<Rightarrow> completed_process"
  env_read_lines :: "string \<Rightarrow> string list option"
  env_identify_interface :: "string \<Rightarrow> (string \<times> int list) list"
  env_coord_keys :: "string \<Rightarrow> (string \<times> int \<times> string \<times> string) list"

text \<open>
  What a run does to the outside, in program order: a call of the scorer with its command
  line, a mutant file written by \<^verbatim>\<open>mutate\<close> (name and text), a file removed, and a result
  table written (name, the four header lines, the rows).
\<close>

datatype scan_event =
    Scored string
  | WroteMutant string string
  | Removed string
  | WroteTable string "string list" "scan_row list"

text \<open>
  \<^verbatim>\<open>float(ori_score)\<close> inside \<^verbatim>\<open>try ... except ValueError\<close>: a string that is not a number
  gives not-a-number; \<^verbatim>\<open>None\<close> raises \<^verbatim>\<open>TypeError\<close>, which is not caught.
\<close>

definition ori_score_of :: "(string \<Rightarrow> pyfloat option) \<Rightarrow> py_val \<Rightarrow> py_error + pyfloat" where
  "ori_score_of tf v =
     (case v of
        PyNone \<Rightarrow> Inl TypeError
      | PyFloat x \<Rightarrow> Inr x
      | PyStr t \<Rightarrow> (case tf t of None \<Rightarrow> Inr NaN | Some x \<Rightarrow> Inr x))"

text \<open>\<^verbatim>\<open>pdb_f.name\<close>: the last component of a path.\<close>

definition path_name :: "string \<Rightarrow> string" where
  "path_name p = last (py_split ''/'' p)"

text \<open>The key \<^verbatim>\<open>f"{chain}-{res}"\<close> and the loop that fills \<^verbatim>\<open>resname_dict\<close>.\<close>

definition res_key :: "string \<Rightarrow> int \<Rightarrow> string" where
  "res_key ch r = ch @ ''-'' @ str_int r"

definition resname_dict_of :: "(string \<times> int \<times> string \<times> string) list \<Rightarrow> (string \<rightharpoonup> string)" where
  "resname_dict_of keys =
     foldl (\<lambda>d (ch, resid, atom, rname).
              if d (res_key ch resid) = None then d(res_key ch resid \<mapsto> rname) else d)
       Map.empty keys"

text \<open>
  The pairs that the two nested loops \<^verbatim>\<open>for chain in interface: for res in
  interface[chain]\<close> visit, in order.
\<close>

definition interface_residues :: "(string \<times> int list) list \<Rightarrow> (string \<times> int) list" where
  "interface_residues interface = concat (map (\<lambda>(ch, rs). map (Pair ch) rs) interface)"

text \<open>
  The state of the loop over the interface residues: the list \<^verbatim>\<open>scan_data\<close>, the locals
  \<^verbatim>\<open>c_score, c_vdw, c_elec, c_des, c_bsa\<close> (\<open>None\<close> while unbound) and the events so far.
\<close>

record scan_state =
  scan_data :: "scan_row list"
  current :: "energies option"
  events :: "scan_event list"

text \<open>
  The row appended for a mutated residue. The test \<^verbatim>\<open>ori_score != float('nan')\<close> is true
  for every float, so \<^verbatim>\<open>delta_ori_score\<close> is always computed. The \<^verbatim>\<open>z_score\<close> column is
  added when the table is written.
\<close>

definition mutant_row ::
  "string \<Rightarrow> int \<Rightarrow> string \<Rightarrow> string \<Rightarrow> energies \<Rightarrow> energies \<Rightarrow> pyfloat \<Rightarrow> scan_row" where
  "mutant_row ch r ori_rn end_rn c n ori_score =
     \<lparr>chain = ch, res = r, ori_resname = ori_rn, end_resname = end_rn,
      mutant = c,
      delta_ori_score = fsub (en_score c) ori_score,
      delta = \<lparr>delta_score = fsub (en_score c) (en_score n),
               delta_vdw = fsub (en_vdw c) (en_vdw n),
               delta_elec = fsub (en_elec c) (en_elec n),
               delta_desolv = fsub (en_desolv c) (en_desolv n),
               delta_bsa = fsub (en_bsa c) (en_bsa n)\<rparr>,
      z_score = NaN\<rparr>"

text \<open>
  The body of the inner loop for one interface residue. \<open>n\<close> is the rescoring of the
  native structure, \<open>d\<close> is \<^verbatim>\<open>resname_dict\<close>.
\<close>

definition scan_residue ::
  "scan_env \<Rightarrow> Scan \<Rightarrow> pdbfile \<Rightarrow> pyfloat \<Rightarrow> energies \<Rightarrow> (string \<rightharpoonup> string) \<Rightarrow> string
     \<Rightarrow> scan_state \<Rightarrow> string \<times> int \<Rightarrow> py_error + scan_state" where
  "scan_residue env self native ori_score n d sc_dir st cr =
     (case cr of (ch, r) \<Rightarrow>
      (case d (res_key ch r) of
         None \<Rightarrow> Inl (KeyError (res_key ch r))
       | Some ori_rn \<Rightarrow>
           if ori_rn = scan_res self then Inr (st\<lparr>current := Some n\<rparr>)
           else
             (case env_read_lines env (rel_path native) of
                None \<Rightarrow> Inl (FileNotFoundError (rel_path native))
              | Some lines \<Rightarrow>
                  (case mutate lines (path_name (rel_path native)) ch r (scan_res self) of
                     Inl err \<Rightarrow> Inl err
                   | Inr (mut_pdb_name, text) \<Rightarrow>
                       (case calc_score (env_to_float env) (env_scorer env) mut_pdb_name sc_dir of
                          Inl err \<Rightarrow> Inl err
                        | Inr c \<Rightarrow>
                            Inr \<lparr>scan_data =
                                   scan_data st
                                   @ [mutant_row ch r ori_rn (scan_res self) c n ori_score],
                                 current = Some c,
                                 events =
                                   events st
                                   @ [WroteMutant mut_pdb_name text,
                                      Scored (score_cmd mut_pdb_name sc_dir),
                                      Removed mut_pdb_name]\<rparr>)))))"

fun scan_residues ::
  "scan_env \<Rightarrow> Scan \<Rightarrow> pdbfile \<Rightarrow> pyfloat \<Rightarrow> energies \<Rightarrow> (string \<rightharpoonup> string) \<Rightarrow> string
     \<Rightarrow> (string \<times> int) list \<Rightarrow> scan_state \<Rightarrow> py_error + scan_state" where
  "scan_residues env self native ori_score n d sc_dir [] st = Inr st"
| "scan_residues env self native ori_score n d sc_dir (cr # rest) st =
     (case scan_residue env self native ori_score n d sc_dir st cr of
        Inl err \<Rightarrow> Inl err
      | Inr st1 \<Rightarrow> scan_residues env self native ori_score n d sc_dir rest st1)"

text \<open>The four header lines of a result table.\<close>

definition table_header :: "string \<Rightarrow> string list" where
  "table_header name =
     [''########################################'',
      ''# `alascan` results for '' @ name,
      ''#'',
      ''########################################'']"

text \<open>The dataframe with its \<^verbatim>\<open>z_score\<close> column, from \<^verbatim>\<open>add_zscores(df_scan, 'delta_score')\<close>.\<close>

definition scan_table :: "scan_row list \<Rightarrow> scan_row list" where
  "scan_table data =
     map (\<lambda>(row, z). row\<lparr>z_score := z\<rparr>)
       (zip data (add_zscores (map (\<lambda>row. delta_score (delta row)) data)))"

text \<open>
  The body of the loop of \<^verbatim>\<open>Scan.run\<close> for one model: the table written for it and the
  events, in order.
\<close>

definition scan_model ::
  "scan_env \<Rightarrow> Scan \<Rightarrow> pdbfile \<Rightarrow> py_error + scan_row list \<times> scan_event list" where
  "scan_model env self native =
     (case ori_score_of (env_to_float env) (score native) of
        Inl err \<Rightarrow> Inl err
      | Inr ori_score \<Rightarrow>
          (let sc_dir = ''haddock3-score-'' @ str_int (core self)
           in case calc_score (env_to_float env) (env_scorer env) (rel_path native) sc_dir of
                Inl err \<Rightarrow> Inl err
              | Inr n \<Rightarrow>
                  (let interface = env_identify_interface env (rel_path native);
                       d = resname_dict_of (env_coord_keys env (rel_path native))
                   in case scan_residues env self native ori_score n d sc_dir
                             (interface_residues interface)
                             \<lparr>scan_data = [], current = None,
                              events = [Scored (score_cmd (rel_path native) sc_dir)]\<rparr> of
                        Inl err \<Rightarrow> Inl err
                      | Inr st \<Rightarrow>
                          (let df_scan = scan_table (scan_data st);
                               alascan_fname = ''scan_'' @ file_name native @ ''.csv''
                           in Inr (df_scan,
                                   events st
                                   @ [WroteTable alascan_fname (table_header (file_name native))
                                        df_scan])))))"

text \<open>\<^verbatim>\<open>Scan.run\<close>: the loop over \<^verbatim>\<open>self.model_list\<close>; the events of the whole run.\<close>

fun scan_models :: "scan_env \<Rightarrow> Scan \<Rightarrow> pdbfile list \<Rightarrow> py_error + scan_event list" where
  "scan_models env self [] = Inr []"
| "scan_models env self (native # rest) =
     (case scan_model env self native of
        Inl err \<Rightarrow> Inl err
      | Inr (df_scan, evs) \<Rightarrow>
          (case scan_models env self rest of
             Inl err \<Rightarrow> Inl err
           | Inr evs' \<Rightarrow> Inr (evs @ evs')))"

definition Scan_run :: "scan_env \<Rightarrow> Scan \<Rightarrow> py_error + scan_event list" where
  "Scan_run env self = scan_models env self (model_list self)"

text \<open>
  The interface residues that are not of the target type already, the scorer calls
  among the events and the mutant files among them.
\<close>

definition to_scan :: "string \<Rightarrow> (string \<rightharpoonup> string) \<Rightarrow> (string \<times> int) list \<Rightarrow> (string \<times> int) list" where
  "to_scan target d residues = filter (\<lambda>(ch, r). d (res_key ch r) \<noteq> Some target) residues"

definition scorer_calls :: "scan_event list \<Rightarrow> string list" where
  "scorer_calls evs = [c. Scored c \<leftarrow> evs]"

definition mutant_files :: "scan_event list \<Rightarrow> string list" where
  "mutant_files evs = [f. WroteMutant f t \<leftarrow> evs]"

text \<open>
  A run on one structure with the interface residues 11 (a serine) and 12 (a lysine) of
  chain A, scanning to serine.
\<close>

definition example_env :: scan_env where
  "example_env =
     \<lparr>env_to_float = decimal,
      env_scorer = good_scorer,
      env_read_lines = (\<lambda>p. if p = ''m1.pdb'' then Some three_atoms else None),
      env_identify_interface = (\<lambda>p. [(''A'', [11, 12])]),
      env_coord_keys =
        (\<lambda>p. [(''A'', 11, ''CA'', ''SER''), (''A'', 12, ''CA'', ''LYS''),
              (''A'', 12, ''CG'', ''LYS'')])\<rparr>"

definition example_model :: pdbfile where
  "example_model =
     \<lparr>file_name = ''m1'', rel_path = ''m1.pdb'', score = PyFloat (Fl (- 10)), clt_id = None\<rparr>"

definition example_scan :: Scan where
  "example_scan =
     \<lparr>model_list = [example_model], output_name = ''alascan_0.scan'', core = 0, path = ''.'',
      scan_res = ''SER''\<rparr>"

subsection \<open>scan.py: alascan\_cluster\_analysis\<close>

text \<open>The five \<^verbatim>\<open>+=\<close> of a row onto an entry, and the five divisions by the counter.\<close>

definition deltas_add :: "deltas \<Rightarrow> deltas \<Rightarrow> deltas" where
  "deltas_add a b =
     \<lparr>delta_score = fadd (delta_score a) (delta_score b),
      delta_vdw = fadd (delta_vdw a) (delta_vdw b),
      delta_elec = fadd (delta_elec a) (delta_elec b),
      delta_desolv = fadd (delta_desolv a) (delta_desolv b),
      delta_bsa = fadd (delta_bsa a) (delta_bsa b)\<rparr>"

definition deltas_div :: "deltas \<Rightarrow> nat \<Rightarrow> deltas" where
  "deltas_div a n =
     \<lparr>delta_score = fdiv (delta_score a) (Fl (real n)),
      delta_vdw = fdiv (delta_vdw a) (Fl (real n)),
      delta_elec = fdiv (delta_elec a) (Fl (real n)),
      delta_desolv = fdiv (delta_desolv a) (Fl (real n)),
      delta_bsa = fdiv (delta_bsa a) (Fl (real n))\<rparr>"

text \<open>\<^verbatim>\<open>ident = f"{chain}-{res}-{ori_resname}"\<close>.\<close>

definition ident_of :: "scan_row \<Rightarrow> string" where
  "ident_of row = chain row @ ''-'' @ str_int (res row) @ ''-'' @ ori_resname row"

text \<open>The body of the loop over the rows of one scan file, on \<^verbatim>\<open>clt_scan[cl_id]\<close>.\<close>

definition add_row :: "(string \<times> clt_entry) list \<Rightarrow> scan_row \<Rightarrow> (string \<times> clt_entry) list" where
  "add_row d row =
     (let ident = ident_of row
      in case map_of d ident of
           None \<Rightarrow> AList.update ident \<lparr>acc = delta row, frac_pr = 1\<rparr> d
         | Some e \<Rightarrow>
             AList.update ident
               \<lparr>acc = deltas_add (acc e) (delta row), frac_pr = frac_pr e + 1\<rparr> d)"

text \<open>
  The first loop of \<^verbatim>\<open>alascan_cluster_analysis\<close>, over the models. \<open>fs\<close> stands for
  \<^verbatim>\<open>pd.read_csv\<close>: \<open>fs f = Some rows\<close> says that \<^verbatim>\<open>read_csv\<close> yields for the name \<open>f\<close> a
  table with the columns the loop reads and these data rows; \<open>fs f = None\<close> says that
  there is no such file, which makes \<^verbatim>\<open>read_csv\<close> raise \<^verbatim>\<open>FileNotFoundError\<close>. A file that
  is present but that \<^verbatim>\<open>read_csv\<close> cannot read as such a table (an empty or truncated
  file, a missing column) is neither of the two and is outside this model. The state is
  \<^verbatim>\<open>(clt_scan, cl_pops)\<close>.
\<close>

type_synonym clt_scan = "(py_id \<times> (string \<times> clt_entry) list) list"

text \<open>The dict key of a model's cluster: \<^verbatim>\<open>"-"\<close> when \<^verbatim>\<open>clt_id\<close> is \<^verbatim>\<open>None\<close>.\<close>

definition cl_id_of :: "pdbfile \<Rightarrow> py_id" where
  "cl_id_of native = (case clt_id native of None \<Rightarrow> StrId ''-'' | Some c \<Rightarrow> c)"

text \<open>\<^verbatim>\<open>alascan_fname = f"scan_{native.file_name}.csv"\<close>.\<close>

definition scan_fname :: "pdbfile \<Rightarrow> string" where
  "scan_fname native = ''scan_'' @ file_name native @ ''.csv''"

fun read_models ::
  "(string \<Rightarrow> scan_row list option) \<Rightarrow> pdbfile list \<Rightarrow> clt_scan \<times> (py_id \<times> nat) list
     \<Rightarrow> py_error + clt_scan \<times> (py_id \<times> nat) list" where
  "read_models fs [] st = Inr st"
| "read_models fs (native # rest) (clt_scan, cl_pops) =
     (let cl_id = cl_id_of native;
          alascan_fname = scan_fname native
      in case map_of clt_scan cl_id of
           None \<Rightarrow>
             (case fs alascan_fname of
                None \<Rightarrow> Inl (FileNotFoundError alascan_fname)
              | Some df_scan \<Rightarrow>
                  read_models fs rest
                    (AList.update cl_id (foldl add_row [] df_scan) clt_scan,
                     AList.update cl_id 1 cl_pops))
         | Some d \<Rightarrow>
             (case map_of cl_pops cl_id of
                None \<Rightarrow> Inl (KeyError (fmt_id cl_id))
              | Some n \<Rightarrow>
                  (case fs alascan_fname of
                     None \<Rightarrow> Inl (FileNotFoundError alascan_fname)
                   | Some df_scan \<Rightarrow>
                       read_models fs rest
                         (AList.update cl_id (foldl add_row d df_scan) clt_scan,
                          AList.update cl_id (n + 1) cl_pops))))"

text \<open>
  The rows of \<^verbatim>\<open>clt_data\<close> for the cluster \<open>cl_id\<close>, in the order of its dict. The
  three \<^verbatim>\<open>split("-")\<close> fields are read by index; \<^verbatim>\<open>frac_pr / cl_pops[cl_id]\<close> divides
  two Python integers. The \<^verbatim>\<open>z_score\<close> column is added afterwards.
\<close>

fun clt_data ::
  "(py_id \<times> nat) list \<Rightarrow> py_id \<Rightarrow> (string \<times> clt_entry) list \<Rightarrow> py_error + clt_row list" where
  "clt_data cl_pops cl_id [] = Inr []"
| "clt_data cl_pops cl_id ((ident, e) # rest) =
     (let parts = py_split ''-'' ident
      in case py_nth parts 0 of Inl err \<Rightarrow> Inl err | Inr c \<Rightarrow>
         (case py_nth parts 1 of Inl err \<Rightarrow> Inl err | Inr rn \<Rightarrow>
         (case py_nth parts 2 of Inl err \<Rightarrow> Inl err | Inr nm \<Rightarrow>
         (case map_of cl_pops cl_id of None \<Rightarrow> Inl (KeyError (fmt_id cl_id)) | Some pop \<Rightarrow>
          if pop = 0 then Inl ZeroDivisionError
          else (case clt_data cl_pops cl_id rest of Inl err \<Rightarrow> Inl err | Inr rows \<Rightarrow>
            Inr (\<lparr>clt_chain = c, resnum = rn, resname = nm, full_resname = ident,
                  mean = deltas_div (acc e) (frac_pr e),
                  frac_pres = Fl (real (frac_pr e) / real pop),
                  clt_z_score = NaN\<rparr> # rows))))))"

text \<open>
  The dataframe of one cluster as it is written: \<^verbatim>\<open>add_zscores\<close> on the averaged
  \<^verbatim>\<open>delta_score\<close> column, then \<^verbatim>\<open>sort_values(by=['chain', 'resnum'])\<close>. Both columns
  hold strings, so the rows are ordered by the pair of strings; the sort keeps rows with
  equal keys in their order.
\<close>

definition with_zscores :: "clt_row list \<Rightarrow> clt_row list" where
  "with_zscores rows =
     map (\<lambda>(r, z). r\<lparr>clt_z_score := z\<rparr>)
       (zip rows (add_zscores (map (\<lambda>r. delta_score (mean r)) rows)))"

definition sort_values :: "clt_row list \<Rightarrow> clt_row list" where
  "sort_values rows = sort_key (\<lambda>r. (clt_chain r, resnum r)) rows"

text \<open>
  The second loop, over the clusters of \<^verbatim>\<open>clt_scan\<close> in insertion order: the files
  written, as pairs of a file name and the rows of its dataframe.
\<close>

fun write_clusters ::
  "(py_id \<times> nat) list \<Rightarrow> clt_scan \<Rightarrow> py_error + (string \<times> clt_row list) list" where
  "write_clusters cl_pops [] = Inr []"
| "write_clusters cl_pops ((cl_id, d) # rest) =
     (let scan_clt_filename = ''scan_clt_'' @ fmt_id cl_id @ ''.csv''
      in case clt_data cl_pops cl_id d of Inl err \<Rightarrow> Inl err | Inr rows \<Rightarrow>
         (case write_clusters cl_pops rest of Inl err \<Rightarrow> Inl err
          | Inr files \<Rightarrow>
              Inr ((scan_clt_filename, sort_values (with_zscores rows)) # files)))"

text \<open>
  \<^verbatim>\<open>alascan_cluster_analysis\<close>: the value returned (\<^verbatim>\<open>clt_scan\<close>, which holds the sums)
  and the summary files written.
\<close>

definition alascan_cluster_analysis ::
  "(string \<Rightarrow> scan_row list option) \<Rightarrow> pdbfile list
     \<Rightarrow> py_error + clt_scan \<times> (string \<times> clt_row list) list" where
  "alascan_cluster_analysis fs models =
     (case read_models fs models ([], []) of
        Inl err \<Rightarrow> Inl err
      | Inr (clt_scan, cl_pops) \<Rightarrow>
          (case write_clusters cl_pops clt_scan of
             Inl err \<Rightarrow> Inl err
           | Inr files \<Rightarrow> Inr (clt_scan, files)))"

subsection \<open>Notions used to state the properties of the aggregation\<close>

text \<open>
  The members of a cluster among the models, their number, and the data rows of their
  scan files, in the order the code reads them.
\<close>

definition cluster_members :: "py_id \<Rightarrow> pdbfile list \<Rightarrow> pdbfile list" where
  "cluster_members cl models = filter (\<lambda>m. cl_id_of m = cl) models"

definition cluster_rows ::
  "(string \<Rightarrow> scan_row list option) \<Rightarrow> py_id \<Rightarrow> pdbfile list \<Rightarrow> scan_row list" where
  "cluster_rows fs cl models =
     concat (map (\<lambda>m. case fs (scan_fname m) of None \<Rightarrow> [] | Some rows \<Rightarrow> rows)
               (cluster_members cl models))"

text \<open>The rows of a key, and a sum accumulated from the first value on, in order.\<close>

definition rows_of_key :: "string \<Rightarrow> scan_row list \<Rightarrow> scan_row list" where
  "rows_of_key k rows = filter (\<lambda>row. ident_of row = k) rows"

fun fsum :: "pyfloat list \<Rightarrow> pyfloat" where
  "fsum [] = Fl 0"
| "fsum (x # xs) = foldl fadd x xs"

text \<open>The five sums of a list of rows, each accumulated in the order of the rows.\<close>

definition sum_deltas :: "scan_row list \<Rightarrow> deltas" where
  "sum_deltas rs =
     \<lparr>delta_score = fsum (map (\<lambda>r. delta_score (delta r)) rs),
      delta_vdw = fsum (map (\<lambda>r. delta_vdw (delta r)) rs),
      delta_elec = fsum (map (\<lambda>r. delta_elec (delta r)) rs),
      delta_desolv = fsum (map (\<lambda>r. delta_desolv (delta r)) rs),
      delta_bsa = fsum (map (\<lambda>r. delta_bsa (delta r)) rs)\<rparr>"

definition delta_terms :: "(deltas \<Rightarrow> pyfloat) list" where
  "delta_terms = [delta_score, delta_vdw, delta_elec, delta_desolv, delta_bsa]"

text \<open>
  What a summary table \<open>df\<close> must be for the cluster \<open>cl\<close>: one row for each key that
  occurs in the scan files of the cluster, no key twice and no other row; in each row
  every one of the five averaged deltas is the accumulated sum of that term over the rows
  of the key divided by the number of those rows (the occurrence count), and
  \<^verbatim>\<open>frac_pres\<close> is the occurrence count divided by the number of models of the cluster.
\<close>

definition cluster_summary ::
  "(string \<Rightarrow> scan_row list option) \<Rightarrow> pdbfile list \<Rightarrow> py_id \<Rightarrow> clt_row list \<Rightarrow> bool" where
  "cluster_summary fs models cl df =
     (distinct (map full_resname df) \<and>
      full_resname ` set df = ident_of ` set (cluster_rows fs cl models) \<and>
      (\<forall>r \<in> set df.
         (\<forall>t \<in> set delta_terms.
            t (mean r) =
              fdiv (fsum (map (\<lambda>row. t (delta row))
                            (rows_of_key (full_resname r) (cluster_rows fs cl models))))
                   (Fl (real (length (rows_of_key (full_resname r) (cluster_rows fs cl models)))))) \<and>
         frac_pres r =
           Fl (real (length (rows_of_key (full_resname r) (cluster_rows fs cl models)))
               / real (length (cluster_members cl models)))))"

text \<open>The files that a call wrote; none when it raised.\<close>

definition written_files ::
  "py_error + clt_scan \<times> (string \<times> clt_row list) list \<Rightarrow> (string \<times> clt_row list) list" where
  "written_files result = (case result of Inl err \<Rightarrow> [] | Inr (clt_scan, files) \<Rightarrow> files)"

subsection \<open>Example inputs\<close>

text \<open>
  A data row with the given chain, residue number, residue name and \<^verbatim>\<open>delta_score\<close> (the
  other numeric columns are zero), and a model with the given name and cluster.
\<close>

definition data_row :: "string \<Rightarrow> int \<Rightarrow> string \<Rightarrow> real \<Rightarrow> scan_row" where
  "data_row c n nm d =
     \<lparr>chain = c, res = n, ori_resname = nm, end_resname = ''ALA'',
      mutant = \<lparr>en_score = Fl 0, en_vdw = Fl 0, en_elec = Fl 0, en_desolv = Fl 0, en_bsa = Fl 0\<rparr>,
      delta_ori_score = Fl 0,
      delta = \<lparr>delta_score = Fl d, delta_vdw = Fl 0, delta_elec = Fl 0, delta_desolv = Fl 0,
               delta_bsa = Fl 0\<rparr>,
      z_score = Fl 0\<rparr>"

definition model_in :: "string \<Rightarrow> py_id option \<Rightarrow> pdbfile" where
  "model_in nm c = \<lparr>file_name = nm, rel_path = nm @ ''.pdb'', score = PyNone, clt_id = c\<rparr>"

text \<open>
  Two scan files: key \<^verbatim>\<open>A-12-ALA\<close> with \<^verbatim>\<open>delta_score\<close> 2.0 occurs in the first only.
  There is no file for a model \<^verbatim>\<open>m3\<close>.
\<close>

definition two_scan_files :: "string \<Rightarrow> scan_row list option" where
  "two_scan_files f =
     (if f = ''scan_m1.csv'' then Some [data_row ''A'' 12 ''ALA'' 2]
      else if f = ''scan_m2.csv'' then Some [data_row ''B'' 7 ''GLY'' 2]
      else None)"

text \<open>One scan file with rows for the residues 2, 10 and 1 of chain A, in this order.\<close>

definition unsorted_scan_file :: "string \<Rightarrow> scan_row list option" where
  "unsorted_scan_file f =
     (if f = ''scan_m1.csv''
      then Some [data_row ''A'' 2 ''GLY'' 1, data_row ''A'' 10 ''GLY'' 1, data_row ''A'' 1 ''GLY'' 1]
      else None)"

text \<open>
  Four models, three of them in cluster 1 and one unclustered. The key \<^verbatim>\<open>A-12-ALA\<close>
  occurs in the files of two of the three members of cluster 1 (\<^verbatim>\<open>delta_score\<close> 2.0 and
  4.0), the key \<^verbatim>\<open>B-7-GLY\<close> in one; the table of the third member has no data row.
\<close>

definition shared_key_files :: "string \<Rightarrow> scan_row list option" where
  "shared_key_files f =
     (if f = ''scan_a.csv'' then Some [data_row ''A'' 12 ''ALA'' 2]
      else if f = ''scan_b.csv'' then Some [data_row ''A'' 12 ''ALA'' 4, data_row ''B'' 7 ''GLY'' 3]
      else if f = ''scan_c.csv'' then Some []
      else if f = ''scan_d.csv'' then Some [data_row ''A'' 12 ''ALA'' 5]
      else None)"

definition four_models :: "pdbfile list" where
  "four_models =
     [model_in ''a'' (Some (IntId 1)), model_in ''b'' (Some (IntId 1)),
      model_in ''c'' (Some (IntId 1)), model_in ''d'' None]"

section \<open>Theorems\<close>

subsection \<open>MPIScheduler.run\<close>

lemma launched_simps [simp]:
  "launched [] = []"
  "launched (SubprocessRun c # evs) = c # launched evs"
  "launched (Pickled p # evs) = launched evs"
  "launched (LogInfo p # evs) = launched evs"
  "launched (LogDebug p # evs) = launched evs"
  "launched (LogError p # evs) = launched evs"
  "launched (xs @ ys) = launched xs @ launched ys"
  by (simp_all add: launched_def)

text \<open>
  Claim C7. \<^verbatim>\<open>MPIScheduler.run\<close> probes for \<^verbatim>\<open>mpirun\<close> first and, when it is found,
  launches exactly the command \<^verbatim>\<open>mpirun -np <ncores> haddock3-mpitask <pickle>\<close>; when
  \<^verbatim>\<open>mpirun\<close> is absent and \<^verbatim>\<open>srun\<close> is found it launches exactly
  \<^verbatim>\<open>srun haddock3-mpitask <pickle>\<close>, with no process count; when neither is found it
  launches nothing and ends with \<^verbatim>\<open>SystemExit\<close>.
\<close>

theorem mpi_launcher_precedence:
  "(find_executable sys ''mpirun'' \<noteq> None \<longrightarrow>
      launched (fst (MPIScheduler_run sys self)) = [mpirun_cmd self]) \<and>
   (find_executable sys ''mpirun'' = None \<and> find_executable sys ''srun'' \<noteq> None \<longrightarrow>
      launched (fst (MPIScheduler_run sys self)) = [srun_cmd self]) \<and>
   (find_executable sys ''mpirun'' = None \<and> find_executable sys ''srun'' = None \<longrightarrow>
      launched (fst (MPIScheduler_run sys self)) = [] \<and>
      (\<exists>a. snd (MPIScheduler_run sys self) = Inl (SystemExit a)))"
  by (simp add: MPIScheduler_run_def pickle_tasks_def mpirun_cmd_def srun_cmd_def Let_def)

theorem mpi_launcher_precedence_witness:
  "launched (fst (MPIScheduler_run
      \<lparr>find_executable = (\<lambda>p. if p = ''mpirun'' \<or> p = ''srun'' then Some (''/usr/bin/'' @ p) else None),
       driver_stderr = (\<lambda>c. [])\<rparr>
      \<lparr>tasks = [()], cwd = ''/run'', ncores = Some 4\<rparr>))
     = [''mpirun -np 4 haddock3-mpitask /run/mpi.pkl''] \<and>
   launched (fst (MPIScheduler_run
      \<lparr>find_executable = (\<lambda>p. if p = ''srun'' then Some ''/usr/bin/srun'' else None),
       driver_stderr = (\<lambda>c. [])\<rparr>
      \<lparr>tasks = [()], cwd = ''/run'', ncores = Some 4\<rparr>))
     = [''srun haddock3-mpitask /run/mpi.pkl''] \<and>
   launched (fst (MPIScheduler_run
      \<lparr>find_executable = (\<lambda>p. None), driver_stderr = (\<lambda>c. [])\<rparr>
      \<lparr>tasks = [()], cwd = ''/run'', ncores = Some 4\<rparr>)) = []"
  using
    mpi_launcher_precedence [of
      "\<lparr>find_executable = (\<lambda>p. if p = ''mpirun'' \<or> p = ''srun'' then Some (''/usr/bin/'' @ p) else None),
        driver_stderr = (\<lambda>c. [])\<rparr>"
      "\<lparr>tasks = [()], cwd = ''/run'', ncores = Some 4\<rparr>"]
    mpi_launcher_precedence [of
      "\<lparr>find_executable = (\<lambda>p. if p = ''srun'' then Some ''/usr/bin/srun'' else None),
        driver_stderr = (\<lambda>c. [])\<rparr>"
      "\<lparr>tasks = [()], cwd = ''/run'', ncores = Some 4\<rparr>"]
    mpi_launcher_precedence [of
      "\<lparr>find_executable = (\<lambda>p. None), driver_stderr = (\<lambda>c. [])\<rparr>"
      "\<lparr>tasks = [()], cwd = ''/run'', ncores = Some 4\<rparr>"]
  by (simp add: mpirun_cmd_def srun_cmd_def pickle_path_def fmt_ncores_def str_int_def
      str_nat.simps)

text \<open>
  Claim C10. On both fatal paths of \<^verbatim>\<open>MPIScheduler.run\<close> (no launcher found; non-empty
  standard error of the driver process) the call ends with \<^verbatim>\<open>sys.exit()\<close> without an
  argument, after logging an error, and the exit status of that is 0.
\<close>

theorem mpi_fatal_paths_exit_zero:
  "(find_executable sys ''mpirun'' = None \<and> find_executable sys ''srun'' = None \<longrightarrow>
      snd (MPIScheduler_run sys self) = Inl (SystemExit None) \<and>
      (\<exists>msg. last (fst (MPIScheduler_run sys self)) = LogError msg)) \<and>
   (c \<in> set (launched (fst (MPIScheduler_run sys self))) \<and> driver_stderr sys c \<noteq> [] \<longrightarrow>
      snd (MPIScheduler_run sys self) = Inl (SystemExit None) \<and>
      last (fst (MPIScheduler_run sys self)) = LogError (driver_stderr sys c)) \<and>
   exit_status None = 0"
  by (auto simp add: MPIScheduler_run_def pickle_tasks_def exit_status_def Let_def
      split: if_splits)

theorem mpi_fatal_paths_exit_zero_witness:
  "MPIScheduler_run
      \<lparr>find_executable = (\<lambda>p. None), driver_stderr = (\<lambda>c. [])\<rparr>
      \<lparr>tasks = [()], cwd = ''/run'', ncores = Some 4\<rparr>
     = ([LogDebug ''Pickling the tasks at /run/mpi.pkl'', Pickled ''/run/mpi.pkl'',
         LogInfo ''Executing tasks with the haddock3-mpitask runner using 4 processors...'',
         LogError ''mpirun or srun are not available on the system''],
        Inl (SystemExit None)) \<and>
   snd (MPIScheduler_run
      \<lparr>find_executable = (\<lambda>p. if p = ''srun'' then Some ''/usr/bin/srun'' else None),
       driver_stderr = (\<lambda>c. ''warning: slow network'')\<rparr>
      \<lparr>tasks = [()], cwd = ''/run'', ncores = None\<rparr>) = Inl (SystemExit None) \<and>
   exit_status None = 0"
  using
    mpi_fatal_paths_exit_zero [of
      "\<lparr>find_executable = (\<lambda>p. None), driver_stderr = (\<lambda>c. [])\<rparr>"
      "\<lparr>tasks = [()], cwd = ''/run'', ncores = Some 4\<rparr>" "[]"]
    mpi_fatal_paths_exit_zero [of
      "\<lparr>find_executable = (\<lambda>p. if p = ''srun'' then Some ''/usr/bin/srun'' else None),
        driver_stderr = (\<lambda>c. ''warning: slow network'')\<rparr>"
      "\<lparr>tasks = [()], cwd = ''/run'', ncores = None\<rparr>"
      "''srun haddock3-mpitask /run/mpi.pkl''"]
  by (simp add: MPIScheduler_run_def pickle_tasks_def pickle_path_def fmt_ncores_def
      str_int_def str_nat.simps Let_def)

subsection \<open>add\_zscores\<close>

lemma add_zscores_single: "add_zscores [x] = [NaN]"
  by (cases x) (simp_all add: add_zscores_def series_std_def series_mean_def finite_vals_def)

lemma finite_vals_replicate: "finite_vals (replicate n (Fl a)) = replicate n a"
  by (induction n) (simp_all add: finite_vals_def)

text \<open>
  With at least two values, all equal, the standard deviation is zero and the guard of
  \<^verbatim>\<open>add_zscores\<close> gives zero z-scores.
\<close>

lemma add_zscores_constant:
  assumes "2 \<le> n"
  shows "add_zscores (replicate n (Fl a)) = replicate n (Fl 0)"
proof -
  have "sum_list (replicate n a) / real n = a"
    using assms by (simp add: sum_list_replicate)
  then have "series_std (replicate n (Fl a)) = Fl 0"
    using assms by (simp add: series_std_def finite_vals_replicate Let_def sum_list_replicate o_def)
  then show ?thesis
    by (simp add: add_zscores_def Let_def map_replicate_const)
qed

text \<open>
  Claim C2 says that a delta column of any length \<open>\<ge> 1\<close> whose values are all equal gets an
  all-zero \<^verbatim>\<open>z_score\<close> column, never not-a-number. The code, on a column of length one:
  \<^verbatim>\<open>Series.std()\<close> is the sample standard deviation, which is not-a-number for a single
  value; not-a-number passes the test \<^verbatim>\<open>std_delta != 0.0\<close>, and the division makes the
  z-score not-a-number instead of zero.
\<close>

theorem add_zscores_one_row_nan:
  "add_zscores [Fl 2] = [NaN] \<and> add_zscores [Fl 2] \<noteq> [Fl 0]"
  by (simp add: add_zscores_single)

subsection \<open>alascan\_cluster\_analysis\<close>

lemma fsum_snoc: "xs \<noteq> [] \<Longrightarrow> fsum (xs @ [x]) = fadd (fsum xs) x"
  by (cases xs) simp_all

lemma sum_deltas_single: "sum_deltas [r] = delta r"
  by (simp add: sum_deltas_def)

lemma sum_deltas_snoc:
  "rs \<noteq> [] \<Longrightarrow> sum_deltas (rs @ [r]) = deltas_add (sum_deltas rs) (delta r)"
  by (simp add: sum_deltas_def deltas_add_def fsum_snoc)

lemma map_of_add_row:
  "map_of (add_row d row) k =
     (if k = ident_of row
      then Some (case map_of d k of
                   None \<Rightarrow> \<lparr>acc = delta row, frac_pr = 1\<rparr>
                 | Some e \<Rightarrow> \<lparr>acc = deltas_add (acc e) (delta row), frac_pr = frac_pr e + 1\<rparr>)
      else map_of d k)"
  by (simp add: add_row_def Let_def update_conv' split: option.splits)

lemma map_of_foldl_add_row:
  "map_of (foldl add_row [] rows) k =
     (if rows_of_key k rows = [] then None
      else Some \<lparr>acc = sum_deltas (rows_of_key k rows),
                 frac_pr = length (rows_of_key k rows)\<rparr>)"
proof (induction rows rule: rev_induct)
  case Nil
  show ?case by (simp add: rows_of_key_def)
next
  case (snoc row rows)
  show ?case
  proof (cases "k = ident_of row")
    case False
    then show ?thesis using snoc by (simp add: map_of_add_row rows_of_key_def)
  next
    case True
    show ?thesis
    proof (cases "rows_of_key k rows = []")
      case True
      with \<open>k = ident_of row\<close> snoc show ?thesis
        by (simp add: map_of_add_row rows_of_key_def sum_deltas_single)
    next
      case False
      with \<open>k = ident_of row\<close> snoc show ?thesis
        using sum_deltas_snoc [of "rows_of_key k rows" row]
        by (simp add: map_of_add_row rows_of_key_def)
    qed
  qed
qed

lemma distinct_add_row: "distinct (map fst d) \<Longrightarrow> distinct (map fst (add_row d row))"
  by (simp add: add_row_def Let_def distinct_update split: option.splits)

lemma distinct_foldl_add_row:
  "distinct (map fst d) \<Longrightarrow> distinct (map fst (foldl add_row d rows))"
  by (induction rows arbitrary: d) (simp_all add: distinct_add_row)

lemma keys_add_row: "fst ` set (add_row d row) = insert (ident_of row) (fst ` set d)"
  by (simp add: add_row_def Let_def dom_update split: option.splits)

lemma keys_foldl_add_row:
  "fst ` set (foldl add_row d rows) = fst ` set d \<union> ident_of ` set rows"
  by (induction rows arbitrary: d) (auto simp add: keys_add_row)


lemma cluster_members_Cons:
  "cluster_members cl (m # ms) =
     (if cl_id_of m = cl then m # cluster_members cl ms else cluster_members cl ms)"
  by (simp add: cluster_members_def)

lemma cluster_rows_Cons:
  "cluster_rows fs cl (m # ms) =
     (if cl_id_of m = cl
      then (case fs (scan_fname m) of None \<Rightarrow> [] | Some rows \<Rightarrow> rows) @ cluster_rows fs cl ms
      else cluster_rows fs cl ms)"
  by (simp add: cluster_rows_def cluster_members_def)

lemma cluster_rows_no_members: "cluster_members cl ms = [] \<Longrightarrow> cluster_rows fs cl ms = []"
  by (simp add: cluster_rows_def)

lemma read_models_Inr:
  assumes "read_models fs ms (cs, pops) = Inr (cs', pops')"
    and "\<forall>cl. (map_of cs cl = None) = (map_of pops cl = None)"
  shows "(\<forall>cl. (map_of cs' cl = None) = (map_of pops' cl = None)) \<and>
         (distinct (map fst cs) \<longrightarrow> distinct (map fst cs')) \<and>
         (\<forall>cl. map_of cs' cl =
            (if cluster_members cl ms = [] then map_of cs cl
             else Some (foldl add_row (case map_of cs cl of None \<Rightarrow> [] | Some d \<Rightarrow> d)
                          (cluster_rows fs cl ms)))) \<and>
         (\<forall>cl. map_of pops' cl =
            (if cluster_members cl ms = [] then map_of pops cl
             else Some ((case map_of pops cl of None \<Rightarrow> 0 | Some n \<Rightarrow> n)
                          + length (cluster_members cl ms))))"
  using assms
proof (induction ms arbitrary: cs pops)
  case Nil
  then show ?case by (simp add: cluster_members_def)
next
  case (Cons m ms)
  obtain df where df: "fs (scan_fname m) = Some df"
    using Cons.prems(1) by (cases "fs (scan_fname m)") (auto simp add: Let_def split: option.splits)
  define d0 where "d0 = (case map_of cs (cl_id_of m) of None \<Rightarrow> [] | Some d \<Rightarrow> d)"
  define n0 where "n0 = (case map_of pops (cl_id_of m) of None \<Rightarrow> 0 | Some n \<Rightarrow> n)"
  define cs1 where "cs1 = AList.update (cl_id_of m) (foldl add_row d0 df) cs"
  define pops1 where "pops1 = AList.update (cl_id_of m) (n0 + 1) pops"
  have inv0: "(map_of cs (cl_id_of m) = None) = (map_of pops (cl_id_of m) = None)"
    using Cons.prems(2) by blast
  have step: "read_models fs ms (cs1, pops1) = Inr (cs', pops')"
    using Cons.prems(1) df inv0
    by (auto simp add: Let_def cs1_def pops1_def d0_def n0_def split: option.splits)
  have inv1: "\<forall>cl. (map_of cs1 cl = None) = (map_of pops1 cl = None)"
    using Cons.prems(2) by (simp add: cs1_def pops1_def update_conv')
  note IH = Cons.IH [OF step inv1]
  have m1: "map_of cs1 cl = (if cl = cl_id_of m then Some (foldl add_row d0 df) else map_of cs cl)" for cl
    by (simp add: cs1_def update_conv')
  have p1: "map_of pops1 cl = (if cl = cl_id_of m then Some (n0 + 1) else map_of pops cl)" for cl
    by (simp add: pops1_def update_conv')
  have "\<forall>cl. (map_of cs' cl = None) = (map_of pops' cl = None)"
    using IH by blast
  moreover have "distinct (map fst cs) \<longrightarrow> distinct (map fst cs')"
    using IH by (simp add: cs1_def distinct_update)
  moreover have "map_of cs' cl =
            (if cluster_members cl (m # ms) = [] then map_of cs cl
             else Some (foldl add_row (case map_of cs cl of None \<Rightarrow> [] | Some d \<Rightarrow> d)
                          (cluster_rows fs cl (m # ms))))" for cl
    using IH df
    by (auto simp add: m1 cluster_members_Cons cluster_rows_Cons cluster_rows_no_members d0_def)
  moreover have "map_of pops' cl =
            (if cluster_members cl (m # ms) = [] then map_of pops cl
             else Some ((case map_of pops cl of None \<Rightarrow> 0 | Some n \<Rightarrow> n)
                          + length (cluster_members cl (m # ms))))" for cl
    using IH
    by (auto simp add: p1 cluster_members_Cons n0_def)
  ultimately show ?case by blast
qed


lemma clt_data_row:
  assumes "clt_data pops cl d = Inr rows" and "r \<in> set rows"
  shows "\<exists>e pop. (full_resname r, e) \<in> set d \<and> map_of pops cl = Some pop \<and> pop \<noteq> 0 \<and>
           mean r = deltas_div (acc e) (frac_pr e) \<and>
           frac_pres r = Fl (real (frac_pr e) / real pop)"
  using assms
proof (induction d arbitrary: rows)
  case Nil
  then show ?case by simp
next
  case (Cons p d)
  obtain ident e where p: "p = (ident, e)" by (cases p)
  from Cons.prems(1) obtain rows' r0 where
    rest: "clt_data pops cl d = Inr rows'" and rows: "rows = r0 # rows'" and
    r0: "\<exists>pop. map_of pops cl = Some pop \<and> pop \<noteq> 0 \<and> full_resname r0 = ident \<and>
           mean r0 = deltas_div (acc e) (frac_pr e) \<and>
           frac_pres r0 = Fl (real (frac_pr e) / real pop)"
    by (auto simp add: p Let_def split: sum.splits option.splits if_splits)
  show ?case
  proof (cases "r = r0")
    case True
    then show ?thesis using r0 p by auto
  next
    case False
    then have "r \<in> set rows'" using Cons.prems(2) rows by simp
    from Cons.IH [OF rest this] show ?thesis by auto
  qed
qed

lemma length_add_zscores: "length (add_zscores col) = length col"
  by (simp add: add_zscores_def Let_def)

lemma with_zscores_row:
  assumes "r \<in> set (with_zscores rows)"
  shows "\<exists>r0 z. r0 \<in> set rows \<and> r = r0\<lparr>clt_z_score := z\<rparr>"
  using assms by (auto simp add: with_zscores_def dest: set_zip_leftD)

lemma sort_values_set: "set (sort_values rows) = set rows"
  by (simp add: sort_values_def)

lemma analysis_state:
  assumes "read_models fs models ([], []) = Inr (cs, pops)" and "(cl, d) \<in> set cs"
  shows "cluster_members cl models \<noteq> [] \<and>
         d = foldl add_row [] (cluster_rows fs cl models) \<and>
         map_of pops cl = Some (length (cluster_members cl models))"
proof -
  have inv: "\<forall>c. (map_of ([] :: clt_scan) c = None) = (map_of ([] :: (py_id \<times> nat) list) c = None)"
    by simp
  note R = read_models_Inr [OF assms(1) inv]
  have "distinct (map fst cs)" using R by simp
  then have get: "map_of cs cl = Some d" using assms(2) by simp
  have cs: "map_of cs cl =
            (if cluster_members cl models = [] then None
             else Some (foldl add_row [] (cluster_rows fs cl models)))"
    using R by simp
  have pops: "map_of pops cl =
            (if cluster_members cl models = [] then None
             else Some (length (cluster_members cl models)))"
    using R by simp
  from get cs have ne: "cluster_members cl models \<noteq> []" by (auto split: if_splits)
  with get cs pops show ?thesis by simp
qed

lemma delta_terms_div:
  assumes "m = deltas_div (sum_deltas rs) n" and "t \<in> set delta_terms"
  shows "t m = fdiv (fsum (map (\<lambda>row. t (delta row)) rs)) (Fl (real n))"
  using assms by (auto simp add: delta_terms_def deltas_div_def sum_deltas_def)

lemmas analysis_eval =
  alascan_cluster_analysis_def written_files_def data_row_def model_in_def add_row_def
  ident_of_def str_int_def str_nat.simps py_split_def startswith_def py_nth_def deltas_div_def
  deltas_add_def sort_values_def with_zscores_def add_zscores_def series_mean_def
  series_std_def finite_vals_def Let_def fmt_id_def cl_id_of_def scan_fname_def

lemma map_zip_keep:
  assumes "length xs = length ys" and "\<And>x y. f (g x y) = f x"
  shows "map f (map (\<lambda>(x, y). g x y) (zip xs ys)) = map f xs"
  using assms by (induction xs ys rule: list_induct2) simp_all

lemma clt_data_keys:
  "clt_data pops cl d = Inr rows \<Longrightarrow> map full_resname rows = map fst d"
proof (induction d arbitrary: rows)
  case Nil
  then show ?case by simp
next
  case (Cons p d)
  obtain ident e where p: "p = (ident, e)" by (cases p)
  from Cons.prems obtain rows' r0 where
    "clt_data pops cl d = Inr rows'" "rows = r0 # rows'" "full_resname r0 = ident"
    by (auto simp add: p Let_def split: sum.splits option.splits if_splits)
  with Cons.IH show ?case by (simp add: p)
qed

lemma with_zscores_names:
  "map full_resname (with_zscores rows) = map full_resname rows"
  unfolding with_zscores_def
  by (rule map_zip_keep) (simp_all add: length_add_zscores)

lemma distinct_map_insort_key:
  "distinct (map g (insort_key k x xs)) = (g x \<notin> g ` set xs \<and> distinct (map g xs))"
  by (induction xs) (auto simp add: set_insort_key)

lemma distinct_map_sort_key:
  "distinct (map g (sort_key k xs)) = distinct (map g xs)"
  by (induction xs) (simp_all add: distinct_map_insort_key)

lemma sort_values_names:
  "set (map full_resname (sort_values rows)) = set (map full_resname rows)"
  "distinct (map full_resname (sort_values rows)) = distinct (map full_resname rows)"
  by (simp_all add: sort_values_def distinct_map_sort_key)

lemma write_clusters_all2:
  assumes "write_clusters pops cs = Inr files"
  shows "list_all2 (\<lambda>p q. fst q = ''scan_clt_'' @ fmt_id (fst p) @ ''.csv'' \<and>
                    (\<exists>rows. clt_data pops (fst p) (snd p) = Inr rows \<and>
                            snd q = sort_values (with_zscores rows))) cs files"
  using assms
proof (induction cs arbitrary: files)
  case Nil
  then show ?case by simp
next
  case (Cons p cs)
  obtain cl d where p: "p = (cl, d)" by (cases p)
  from Cons.prems obtain rows files' where
    rows: "clt_data pops cl d = Inr rows" and rest: "write_clusters pops cs = Inr files'" and
    files: "files = (''scan_clt_'' @ fmt_id cl @ ''.csv'', sort_values (with_zscores rows)) # files'"
    by (auto simp add: p Let_def split: sum.splits)
  from Cons.IH [OF rest] rows show ?case by (simp add: files p)
qed

lemma analysis_clusters:
  assumes "read_models fs models ([], []) = Inr (cs, pops)"
  shows "distinct (map fst cs) \<and> fst ` set cs = cl_id_of ` set models"
proof -
  have inv: "\<forall>c. (map_of ([] :: clt_scan) c = None) = (map_of ([] :: (py_id \<times> nat) list) c = None)"
    by simp
  note R = read_models_Inr [OF assms inv]
  have d: "distinct (map fst cs)" using R by simp
  have eq: "(map_of cs cl = None) = (cluster_members cl models = [])" for cl
    using R by simp
  have "(cl \<notin> fst ` set cs) = (cl \<notin> cl_id_of ` set models)" for cl
    using eq [of cl]
    by (auto simp add: map_of_eq_None_iff cluster_members_def filter_empty_conv image_iff)
  with d show ?thesis by blast
qed

lemma cluster_summary_of:
  assumes rd: "read_models fs models ([], []) = Inr (cs, pops)"
    and mem: "(cl, d) \<in> set cs"
    and rows: "clt_data pops cl d = Inr rows"
  shows "cluster_summary fs models cl (sort_values (with_zscores rows))"
proof -
  from analysis_state [OF rd mem] have
    d: "d = foldl add_row [] (cluster_rows fs cl models)" and
    pops: "map_of pops cl = Some (length (cluster_members cl models))"
    by simp_all
  have dist: "distinct (map fst d)" unfolding d by (rule distinct_foldl_add_row) simp
  have names: "map full_resname (with_zscores rows) = map fst d"
    using clt_data_keys [OF rows] by (simp add: with_zscores_names)
  have 1: "distinct (map full_resname (sort_values (with_zscores rows)))"
    using dist names by (simp add: sort_values_names)
  have "set (map full_resname (sort_values (with_zscores rows))) = set (map fst d)"
    using names by (simp add: sort_values_names del: set_map)
  then have "full_resname ` set (sort_values (with_zscores rows)) = fst ` set d"
    by simp
  then have 2: "full_resname ` set (sort_values (with_zscores rows))
                  = ident_of ` set (cluster_rows fs cl models)"
    by (simp add: d keys_foldl_add_row)
  have 3: "(\<forall>t \<in> set delta_terms.
            t (mean r) =
              fdiv (fsum (map (\<lambda>row. t (delta row))
                            (rows_of_key (full_resname r) (cluster_rows fs cl models))))
                   (Fl (real (length (rows_of_key (full_resname r) (cluster_rows fs cl models)))))) \<and>
         frac_pres r =
           Fl (real (length (rows_of_key (full_resname r) (cluster_rows fs cl models)))
               / real (length (cluster_members cl models)))"
    if "r \<in> set (sort_values (with_zscores rows))" for r
  proof -
    from that have "r \<in> set (with_zscores rows)" by (simp add: sort_values_set)
    from with_zscores_row [OF this] obtain r0 z where
      r0: "r0 \<in> set rows" and r: "r = r0\<lparr>clt_z_score := z\<rparr>"
      by blast
    from clt_data_row [OF rows r0] obtain e pop where
      e: "(full_resname r0, e) \<in> set d" and pop: "map_of pops cl = Some pop" and
      mean: "mean r0 = deltas_div (acc e) (frac_pr e)" and
      frac: "frac_pres r0 = Fl (real (frac_pr e) / real pop)"
      by blast
    let ?rs = "rows_of_key (full_resname r) (cluster_rows fs cl models)"
    have "map_of d (full_resname r0) = Some e" using dist e by simp
    then have e_eq: "e = \<lparr>acc = sum_deltas ?rs, frac_pr = length ?rs\<rparr>"
      unfolding d r by (auto simp add: map_of_foldl_add_row split: if_splits)
    have m: "mean r = deltas_div (sum_deltas ?rs) (length ?rs)"
      using mean e_eq r by simp
    have f: "frac_pres r = Fl (real (length ?rs) / real (length (cluster_members cl models)))"
      using frac e_eq r pop pops by simp
    from f delta_terms_div [OF m] show ?thesis by blast
  qed
  from 1 2 3 show ?thesis unfolding cluster_summary_def by blast
qed

lemma four_models_run:
  "\<exists>clt_scan files. alascan_cluster_analysis shared_key_files four_models = Inr (clt_scan, files)"
  by (simp add: analysis_eval shared_key_files_def four_models_def)

text \<open>
  Claim C1. When \<^verbatim>\<open>alascan_cluster_analysis\<close> returns, it has written one summary for
  each cluster of the models and nothing else: the cluster of every model has a summary,
  every summary written is that of the cluster of some model, and there are as many
  summaries as clusters. Each summary has exactly one row for every key of its cluster.
  In that row each of the five averaged delta terms is the accumulated sum of the term
  over the rows of the key divided by the occurrence count of the key, and
  \<^verbatim>\<open>frac_pres\<close> is the occurrence count divided by the number of models of the cluster:
  two different denominators.
\<close>

theorem cluster_averages:
  assumes "alascan_cluster_analysis fs models = Inr (clt_scan, files)"
  shows "(\<forall>m \<in> set models.
            \<exists>df. (''scan_clt_'' @ fmt_id (cl_id_of m) @ ''.csv'', df) \<in> set files \<and>
                 cluster_summary fs models (cl_id_of m) df) \<and>
         (\<forall>entry \<in> set files.
            \<exists>m \<in> set models. fst entry = ''scan_clt_'' @ fmt_id (cl_id_of m) @ ''.csv'' \<and>
                 cluster_summary fs models (cl_id_of m) (snd entry)) \<and>
         length files = card (cl_id_of ` set models)"
proof -
  from assms obtain pops where
    rd: "read_models fs models ([], []) = Inr (clt_scan, pops)" and
    wr: "write_clusters pops clt_scan = Inr files"
    by (auto simp add: alascan_cluster_analysis_def split: sum.splits prod.splits)
  note all2 = write_clusters_all2 [OF wr]
  note cl = analysis_clusters [OF rd]
  have len: "length clt_scan = length files" using all2 by (rule list_all2_lengthD)
  have pair: "fst (files ! i) = ''scan_clt_'' @ fmt_id (fst (clt_scan ! i)) @ ''.csv'' \<and>
              cluster_summary fs models (fst (clt_scan ! i)) (snd (files ! i))"
    if "i < length clt_scan" for i
  proof -
    from all2 that obtain rows where
      n: "fst (files ! i) = ''scan_clt_'' @ fmt_id (fst (clt_scan ! i)) @ ''.csv''" and
      r: "clt_data pops (fst (clt_scan ! i)) (snd (clt_scan ! i)) = Inr rows" and
      s: "snd (files ! i) = sort_values (with_zscores rows)"
      by (auto simp add: list_all2_conv_all_nth)
    have "(fst (clt_scan ! i), snd (clt_scan ! i)) \<in> set clt_scan" using that by simp
    from cluster_summary_of [OF rd this r] n s show ?thesis by simp
  qed
  have 1: "\<exists>df. (''scan_clt_'' @ fmt_id (cl_id_of m) @ ''.csv'', df) \<in> set files \<and>
                 cluster_summary fs models (cl_id_of m) df" if "m \<in> set models" for m
  proof -
    from that cl have "cl_id_of m \<in> fst ` set clt_scan" by blast
    then obtain i where i: "i < length clt_scan" "fst (clt_scan ! i) = cl_id_of m"
      by (auto simp add: in_set_conv_nth)
    from pair [OF i(1)] i len
    have "(''scan_clt_'' @ fmt_id (cl_id_of m) @ ''.csv'', snd (files ! i)) \<in> set files"
      by (metis nth_mem prod.collapse)
    with pair [OF i(1)] i show ?thesis by auto
  qed
  have 2: "\<exists>m \<in> set models. fst entry = ''scan_clt_'' @ fmt_id (cl_id_of m) @ ''.csv'' \<and>
                 cluster_summary fs models (cl_id_of m) (snd entry)" if "entry \<in> set files" for entry
  proof -
    from that len obtain i where i: "i < length clt_scan" "files ! i = entry"
      by (auto simp add: in_set_conv_nth)
    then have "fst (clt_scan ! i) \<in> fst ` set clt_scan" by simp
    with cl obtain m where "m \<in> set models" "fst (clt_scan ! i) = cl_id_of m" by auto
    with pair [OF i(1)] i show ?thesis by auto
  qed
  have "card (set (map fst clt_scan)) = length (map fst clt_scan)"
    using cl by (intro distinct_card) simp
  then have 3: "length files = card (cl_id_of ` set models)"
    using cl len by simp
  from 1 2 3 show ?thesis by blast
qed

text \<open>
  In the first example the key \<^verbatim>\<open>A-12-ALA\<close> occurs in 2 of the 3 members of cluster 1,
  with \<^verbatim>\<open>delta_score\<close> 2.0 and 4.0: its average is 3.0 and its \<^verbatim>\<open>frac_pres\<close> is 2/3. The
  second is the example of the specification: the key occurs in 1 of 2 members with
  \<^verbatim>\<open>delta_score\<close> 2.0, which gives 2.0 and 0.5.
\<close>

theorem cluster_averages_witness:
  "map (\<lambda>(f, df). (f, map (\<lambda>r. (full_resname r, delta_score (mean r), frac_pres r)) df))
     (written_files (alascan_cluster_analysis shared_key_files four_models))
   = [(''scan_clt_1.csv'', [(''A-12-ALA'', Fl 3, Fl (2 / 3)), (''B-7-GLY'', Fl 3, Fl (1 / 3))]),
      (''scan_clt_-.csv'', [(''A-12-ALA'', Fl 5, Fl 1)])] \<and>
   map (\<lambda>(f, df). (f, map (\<lambda>r. (full_resname r, delta_score (mean r), frac_pres r)) df))
     (written_files (alascan_cluster_analysis two_scan_files
        [model_in ''m1'' (Some (IntId 1)), model_in ''m2'' (Some (IntId 1))]))
   = [(''scan_clt_1.csv'', [(''A-12-ALA'', Fl 2, Fl (1 / 2)), (''B-7-GLY'', Fl 2, Fl (1 / 2))])] \<and>
   (\<exists>df. (''scan_clt_1.csv'', df)
            \<in> set (written_files (alascan_cluster_analysis shared_key_files four_models)) \<and>
         cluster_summary shared_key_files four_models (IntId 1) df) \<and>
   length (written_files (alascan_cluster_analysis shared_key_files four_models)) = 2"
proof -
  obtain clt_scan files where
    run: "alascan_cluster_analysis shared_key_files four_models = Inr (clt_scan, files)"
    using four_models_run by blast
  have a: "model_in ''a'' (Some (IntId 1)) \<in> set four_models"
    by (simp add: four_models_def)
  have id: "cl_id_of (model_in ''a'' (Some (IntId 1))) = IntId 1"
    by (simp add: cl_id_of_def model_in_def)
  have name: "''scan_clt_'' @ fmt_id (IntId 1) @ ''.csv'' = ''scan_clt_1.csv''"
    by (simp add: fmt_id_def str_int_def str_nat.simps)
  have clusters: "card (cl_id_of ` set four_models) = 2"
    by (simp add: four_models_def cl_id_of_def model_in_def)
  have vals: "map (\<lambda>(f, df). (f, map (\<lambda>r. (full_resname r, delta_score (mean r), frac_pres r)) df))
     (written_files (alascan_cluster_analysis shared_key_files four_models))
   = [(''scan_clt_1.csv'', [(''A-12-ALA'', Fl 3, Fl (2 / 3)), (''B-7-GLY'', Fl 3, Fl (1 / 3))]),
      (''scan_clt_-.csv'', [(''A-12-ALA'', Fl 5, Fl 1)])]"
    by (simp add: analysis_eval shared_key_files_def four_models_def)
  have ex: "map (\<lambda>(f, df). (f, map (\<lambda>r. (full_resname r, delta_score (mean r), frac_pres r)) df))
     (written_files (alascan_cluster_analysis two_scan_files
        [model_in ''m1'' (Some (IntId 1)), model_in ''m2'' (Some (IntId 1))]))
   = [(''scan_clt_1.csv'', [(''A-12-ALA'', Fl 2, Fl (1 / 2)), (''B-7-GLY'', Fl 2, Fl (1 / 2))])]"
    by (simp add: analysis_eval two_scan_files_def)
  from cluster_averages [OF run] a id name clusters
  have "(\<exists>df. (''scan_clt_1.csv'', df) \<in> set files \<and>
            cluster_summary shared_key_files four_models (IntId 1) df) \<and> length files = 2"
    by (metis (no_types, lifting))
  with run vals ex show ?thesis by (simp add: written_files_def)
qed

text \<open>
  Claim C4 says that the rows of a summary are sorted by chain and residue number, the
  residue numbers compared as numbers. The code sorts on the column \<^verbatim>\<open>resnum\<close>, which
  holds the strings taken from \<^verbatim>\<open>ident.split("-")[1]\<close>: for the residues 2, 10 and 1 of
  one chain the rows are written in the order 1, 10, 2.
\<close>

theorem summary_sorted_as_strings:
  "map (\<lambda>(f, df). (f, map resnum df))
     (written_files (alascan_cluster_analysis unsorted_scan_file
        [model_in ''m1'' (Some (IntId 1))]))
   = [(''scan_clt_1.csv'', [''1'', ''10'', ''2''])]"
  by (simp add: analysis_eval unsorted_scan_file_def)

lemma length_split_on_char:
  "length (split_on [c] cur s) = Suc (count_list s c)"
proof (induction "[c]" cur s rule: split_on.induct)
  case (1 cur)
  show ?case by simp
next
  case (2 cur x xs)
  then show ?case by (simp add: startswith_def)
qed

lemma count_list_append': "count_list (xs @ ys) c = count_list xs c + count_list ys c"
  by (induction xs) simp_all

lemma ident_of_parts: "3 \<le> length (py_split ''-'' (ident_of row))"
  by (simp add: py_split_def ident_of_def length_split_on_char count_list_append')

lemma read_models_missing:
  assumes "find (\<lambda>m. fs (scan_fname m) = None) ms = Some m"
    and "\<forall>cl. (map_of cs cl = None) = (map_of pops cl = None)"
  shows "read_models fs ms (cs, pops) = Inl (FileNotFoundError (scan_fname m))"
  using assms
proof (induction ms arbitrary: cs pops)
  case Nil
  then show ?case by simp
next
  case (Cons a ms)
  have inv0: "(map_of cs (cl_id_of a) = None) = (map_of pops (cl_id_of a) = None)"
    using Cons.prems(2) by blast
  show ?case
  proof (cases "fs (scan_fname a)")
    case None
    then have "m = a" using Cons.prems(1) by simp
    with None inv0 show ?thesis by (auto simp add: Let_def split: option.splits)
  next
    case (Some df)
    then have f: "find (\<lambda>m. fs (scan_fname m) = None) ms = Some m"
      using Cons.prems(1) by simp
    have inv1: "\<forall>cl. (map_of (AList.update (cl_id_of a) v cs) cl = None)
                  = (map_of (AList.update (cl_id_of a) w pops) cl = None)" for v w
      using Cons.prems(2) by (simp add: update_conv')
    show ?thesis
      using Some inv0 Cons.IH [OF f inv1]
      by (auto simp add: Let_def split: option.splits)
  qed
qed

lemma read_models_total:
  assumes "find (\<lambda>m. fs (scan_fname m) = None) ms = None"
    and "\<forall>cl. (map_of cs cl = None) = (map_of pops cl = None)"
  shows "\<exists>st. read_models fs ms (cs, pops) = Inr st"
  using assms
proof (induction ms arbitrary: cs pops)
  case Nil
  then show ?case by simp
next
  case (Cons a ms)
  have inv0: "(map_of cs (cl_id_of a) = None) = (map_of pops (cl_id_of a) = None)"
    using Cons.prems(2) by blast
  from Cons.prems(1) obtain df where df: "fs (scan_fname a) = Some df"
    by (cases "fs (scan_fname a)") simp_all
  then have f: "find (\<lambda>m. fs (scan_fname m) = None) ms = None"
    using Cons.prems(1) by simp
  have inv1: "\<forall>cl. (map_of (AList.update (cl_id_of a) v cs) cl = None)
                = (map_of (AList.update (cl_id_of a) w pops) cl = None)" for v w
    using Cons.prems(2) by (simp add: update_conv')
  show ?case
    using df inv0 Cons.IH [OF f inv1]
    by (auto simp add: Let_def split: option.splits)
qed

lemma clt_data_total:
  assumes "\<forall>k \<in> fst ` set d. 3 \<le> length (py_split ''-'' k)"
    and "map_of pops cl = Some pop" and "pop \<noteq> 0"
  shows "\<exists>rows. clt_data pops cl d = Inr rows"
  using assms
proof (induction d)
  case Nil
  then show ?case by simp
next
  case (Cons p d)
  obtain ident e where p: "p = (ident, e)" by (cases p)
  have "3 \<le> length (py_split ''-'' ident)" using Cons.prems(1) p by simp
  then have len: "0 < length (py_split ''-'' ident)" "1 < length (py_split ''-'' ident)"
    "2 < length (py_split ''-'' ident)"
    by arith+
  obtain rows where "clt_data pops cl d = Inr rows"
    using Cons by auto
  then show ?case
    using Cons.prems(2,3) len by (simp add: p py_nth_def Let_def)
qed

lemma write_clusters_total:
  assumes "\<forall>p \<in> set cs. \<exists>rows. clt_data pops (fst p) (snd p) = Inr rows"
  shows "\<exists>files. write_clusters pops cs = Inr files"
  using assms
proof (induction cs)
  case Nil
  then show ?case by simp
next
  case (Cons p cs)
  obtain cl d where p: "p = (cl, d)" by (cases p)
  obtain rows where "clt_data pops cl d = Inr rows" using Cons.prems p by auto
  moreover obtain files where "write_clusters pops cs = Inr files" using Cons by auto
  ultimately show ?case by (simp add: p Let_def)
qed

text \<open>
  Claim C5 as stated (a model whose scan file is absent contributes no data and the call
  does not crash) fails: with the file of the second model absent, the call raises
  \<^verbatim>\<open>FileNotFoundError\<close> and writes nothing.
\<close>

theorem absent_scan_file_counterexample:
  "alascan_cluster_analysis two_scan_files
     [model_in ''m1'' (Some (IntId 1)), model_in ''m3'' (Some (IntId 1))]
   = Inl (FileNotFoundError ''scan_m3.csv'')"
  by (simp add: analysis_eval two_scan_files_def)

text \<open>
  When \<open>fs\<close> gives a table for every model, the call returns: nothing else in the two
  loops can raise.
\<close>

lemma analysis_returns_on_tables:
  assumes "find (\<lambda>m. fs (scan_fname m) = None) models = None"
  shows "\<exists>clt_scan files. alascan_cluster_analysis fs models = Inr (clt_scan, files)"
proof -
  from assms have "\<exists>st. read_models fs models ([], []) = Inr st"
    by (rule read_models_total) simp
  then obtain cs pops where rd: "read_models fs models ([], []) = Inr (cs, pops)"
    by auto
  have "\<exists>rows. clt_data pops (fst p) (snd p) = Inr rows" if "p \<in> set cs" for p
  proof -
    from that have mem: "(fst p, snd p) \<in> set cs" by simp
    note S = analysis_state [OF rd mem]
    have "fst ` set (snd p) = ident_of ` set (cluster_rows fs (fst p) models)"
      using S by (simp add: keys_foldl_add_row)
    then have "\<forall>k \<in> fst ` set (snd p). 3 \<le> length (py_split ''-'' k)"
      by (auto simp add: ident_of_parts)
    moreover have "map_of pops (fst p) = Some (length (cluster_members (fst p) models))"
      using S by simp
    moreover have "length (cluster_members (fst p) models) \<noteq> 0"
      using S by simp
    ultimately show ?thesis by (rule clt_data_total)
  qed
  then have "\<exists>files. write_clusters pops cs = Inr files"
    by (intro write_clusters_total) blast
  then show ?thesis
    using rd by (auto simp add: alascan_cluster_analysis_def)
qed

text \<open>
  Claim C5, amended. If the scan file of some model is absent, and \<^verbatim>\<open>pd.read_csv\<close> yields
  a table for every model that comes before the first such model in the list, then
  \<^verbatim>\<open>alascan_cluster_analysis\<close> raises \<^verbatim>\<open>FileNotFoundError\<close> for that first model and writes no
  summary: the absent file is not taken as "no data". (\<open>find\<close> gives the first model of
  the list whose file is absent; for the models before it \<open>fs\<close> is a table.)
\<close>

theorem absent_scan_file_raises:
  assumes "find (\<lambda>m. fs (scan_fname m) = None) models = Some m"
  shows "alascan_cluster_analysis fs models = Inl (FileNotFoundError (scan_fname m)) \<and>
         written_files (alascan_cluster_analysis fs models) = []"
proof -
  from assms have "read_models fs models ([], []) = Inl (FileNotFoundError (scan_fname m))"
    by (rule read_models_missing) simp
  then show ?thesis
    by (simp add: alascan_cluster_analysis_def written_files_def)
qed

theorem absent_scan_file_raises_witness:
  "find (\<lambda>m. two_scan_files (scan_fname m) = None)
     [model_in ''m1'' (Some (IntId 1)), model_in ''m3'' (Some (IntId 1)),
      model_in ''m2'' (Some (IntId 1))]
     = Some (model_in ''m3'' (Some (IntId 1))) \<and>
   alascan_cluster_analysis two_scan_files
     [model_in ''m1'' (Some (IntId 1)), model_in ''m3'' (Some (IntId 1)),
      model_in ''m2'' (Some (IntId 1))]
     = Inl (FileNotFoundError ''scan_m3.csv'')"
proof -
  have first: "find (\<lambda>m. two_scan_files (scan_fname m) = None)
     [model_in ''m1'' (Some (IntId 1)), model_in ''m3'' (Some (IntId 1)),
      model_in ''m2'' (Some (IntId 1))]
     = Some (model_in ''m3'' (Some (IntId 1)))"
    by (simp add: two_scan_files_def scan_fname_def model_in_def)
  from absent_scan_file_raises [OF first] first show ?thesis
    by (simp add: scan_fname_def model_in_def)
qed

subsection \<open>mutate\<close>

lemmas mutate_eval =
  mutate_def three_atoms_def startswith_def py_nth_def py_slice_def py_int_def strip_def
  is_space_def is_digit_def ATOMS_TO_BE_MUTATED_def RES_CODES_def str_int_def str_nat.simps
  py_replace_def py_split_def Let_def

lemma mutate_lines_step:
  assumes "mutate_lines tc tr mr (line # rest) (out, rn) = Inr r"
  shows "\<exists>rn1. mutate_lines tc tr mr rest (out @ lines_written tc tr mr line, rn1) = Inr r"
proof (cases "atom_record line")
  case False
  with assms show ?thesis
    by (auto simp add: lines_written_def atom_record_def)
next
  case True
  from True assms obtain c n where
    c: "py_nth line 21 = Inr c" and n: "py_int (py_slice line 22 26) = Inr n"
    by (auto simp add: atom_record_def split: sum.splits)
  show ?thesis
  proof (cases "tc = [c] \<and> tr = n")
    case False
    with True c n assms show ?thesis
      by (auto simp add: lines_written_def atom_record_def in_residue_def Let_def)
  next
    case target: True
    show ?thesis
    proof (cases "atom_name_of line \<in> set ATOMS_TO_BE_MUTATED")
      case True
      with \<open>atom_record line\<close> target c n assms show ?thesis
        by (auto simp add: lines_written_def atom_record_def in_residue_def atom_name_of_def
            Let_def simp del: set_simps split: if_splits)
    next
      case False
      with \<open>atom_record line\<close> target c n assms show ?thesis
        by (auto simp add: lines_written_def atom_record_def in_residue_def atom_name_of_def
            Let_def simp del: set_simps split: if_splits)
    qed
  qed
qed

lemma mutate_lines_out:
  "mutate_lines tc tr mr lines (out, rn) = Inr (out', rn') \<Longrightarrow>
     out' = out @ concat (map (lines_written tc tr mr) lines)"
proof (induction lines arbitrary: out rn)
  case Nil
  then show ?case by simp
next
  case (Cons line lines)
  from mutate_lines_step [OF Cons.prems] obtain rn1 where
    "mutate_lines tc tr mr lines (out @ lines_written tc tr mr line, rn1) = Inr (out', rn')"
    by blast
  from Cons.IH [OF this] show ?case by simp
qed

text \<open>
  Claim C3 as stated (every other atom record of the requested residue passes through
  byte-identical) fails: \<^verbatim>\<open>mutate\<close> appends a record of the requested residue only when
  its atom name is in \<^verbatim>\<open>ATOMS_TO_BE_MUTATED\<close>. In the example the \<^verbatim>\<open>CG\<close> record of lysine
  12 is not in the output, and neither is the \<^verbatim>\<open>TER\<close> line.
\<close>

theorem mutate_side_chain_counterexample:
  "mutate three_atoms ''m1.pdb'' ''A'' 12 ''ALA''
     = Inr (''m1-A_K12A.pdb'',
            ''ATOM      1  CA  SER A  11      1.000   2.000   3.000'' @ [CHR 0x0A] @
            ''ATOM      2  CA  ALA A  12      4.000   5.000   6.000'' @ [CHR 0x0A]) \<and>
   atom_record (three_atoms ! 2) \<and> in_residue ''A'' 12 (three_atoms ! 2) \<and>
   atom_name_of (three_atoms ! 2) = ''CG''"
  by (simp add: mutate_eval atom_record_def in_residue_def atom_name_of_def)

text \<open>
  Claim C3, amended. When \<^verbatim>\<open>mutate\<close> returns, the text it wrote is, in the order of the
  input lines: for an \<^verbatim>\<open>ATOM\<close> record of the requested chain and residue whose atom name
  is in \<open>{C, N, CA, O, CB}\<close>, the record with the columns 17 to 19 replaced by the target
  residue name; for every other \<^verbatim>\<open>ATOM\<close> record of that residue, nothing; for an \<^verbatim>\<open>ATOM\<close>
  record of any other residue, the record itself, unchanged; and nothing for a line that
  is not an \<^verbatim>\<open>ATOM\<close> record.
\<close>

theorem mutate_output:
  assumes "mutate lines pdb_name target_chain target_resnum mut_resname = Inr (fname, text)"
  shows "text = concat (concat (map (lines_written target_chain target_resnum mut_resname) lines))"
proof -
  from assms obtain mut_pdb_l resname where
    "mutate_lines target_chain target_resnum mut_resname lines ([], []) = Inr (mut_pdb_l, resname)"
    and "text = concat mut_pdb_l"
    by (auto simp add: mutate_def Let_def split: sum.splits option.splits)
  then show ?thesis using mutate_lines_out by fastforce
qed

theorem mutate_output_witness:
  "mutate three_atoms ''m1.pdb'' ''A'' 12 ''ALA''
     = Inr (''m1-A_K12A.pdb'',
            concat (concat (map (lines_written ''A'' 12 ''ALA'') three_atoms))) \<and>
   map (lines_written ''A'' 12 ''ALA'') three_atoms
     = [[three_atoms ! 0],
        [''ATOM      2  CA  ALA A  12      4.000   5.000   6.000'' @ [CHR 0x0A]],
        [], []]"
proof -
  have run: "mutate three_atoms ''m1.pdb'' ''A'' 12 ''ALA''
     = Inr (''m1-A_K12A.pdb'',
            ''ATOM      1  CA  SER A  11      1.000   2.000   3.000'' @ [CHR 0x0A] @
            ''ATOM      2  CA  ALA A  12      4.000   5.000   6.000'' @ [CHR 0x0A])"
    by (simp add: mutate_eval)
  have parts: "map (lines_written ''A'' 12 ''ALA'') three_atoms
     = [[three_atoms ! 0],
        [''ATOM      2  CA  ALA A  12      4.000   5.000   6.000'' @ [CHR 0x0A]],
        [], []]"
    by (simp add: lines_written_def atom_record_def in_residue_def atom_name_of_def mutate_eval)
  from mutate_output [OF run] run parts show ?thesis by simp
qed

subsection \<open>calc\_score\<close>

lemmas score_eval =
  calc_score_def score_cmd_def report_lines_def linesep_def full_report_def good_scorer_def
  failing_scorer_def silent_scorer_def decimal_def parse_digits.simps read_score_line_def
  read_terms_line_def score_line_def terms_line_def last_word_def field_def py_last_def
  py_nth_def py_split_def startswith_def is_space_def is_digit_def unbound_def
  return_terms_def Let_def

lemma read_score_line_bound:
  assumes "read_score_line tf line vars = Inr vars'"
  shows "v_vdw vars' = v_vdw vars \<and>
         (v_score vars' \<noteq> None \<longrightarrow> v_score vars \<noteq> None \<or> score_line line)"
  using assms by (auto simp add: read_score_line_def split: if_splits sum.splits)

lemma read_terms_line_bound:
  assumes "read_terms_line tf line vars = Inr vars'"
  shows "v_score vars' = v_score vars \<and>
         (v_vdw vars' \<noteq> None \<longrightarrow> v_vdw vars \<noteq> None \<or> terms_line line)"
  using assms by (auto simp add: read_terms_line_def split: if_splits sum.splits)

lemma parse_report_bound:
  assumes "parse_report tf lines vars = Inr vars'"
  shows "(v_score vars' \<noteq> None \<longrightarrow> v_score vars \<noteq> None \<or> (\<exists>l \<in> set lines. score_line l)) \<and>
         (v_vdw vars' \<noteq> None \<longrightarrow> v_vdw vars \<noteq> None \<or> (\<exists>l \<in> set lines. terms_line l))"
  using assms
proof (induction lines arbitrary: vars)
  case Nil
  then show ?case by simp
next
  case (Cons line lines)
  from Cons.prems obtain vars1 vars2 where
    s1: "read_score_line tf line vars = Inr vars1" and
    s2: "read_terms_line tf line vars1 = Inr vars2" and
    s3: "parse_report tf lines vars2 = Inr vars'"
    by (auto split: sum.splits)
  from read_score_line_bound [OF s1] read_terms_line_bound [OF s2] Cons.IH [OF s3]
  show ?case by auto
qed

lemma return_terms_bound:
  "return_terms vars = Inr en \<Longrightarrow> v_score vars \<noteq> None \<and> v_vdw vars \<noteq> None"
  by (auto simp add: return_terms_def split: option.splits)

lemma calc_score_Inr:
  assumes "calc_score tf scorer pdb_f run_dir = Inr en"
  shows "returncode (scorer (score_cmd pdb_f run_dir)) = 0 \<and>
         (\<exists>l \<in> set (report_lines (scorer (score_cmd pdb_f run_dir))). score_line l) \<and>
         (\<exists>l \<in> set (report_lines (scorer (score_cmd pdb_f run_dir))). terms_line l)"
proof -
  from assms have rc: "returncode (scorer (score_cmd pdb_f run_dir)) = 0"
    by (auto simp add: calc_score_def Let_def split: if_splits)
  from assms obtain vars where
    p: "parse_report tf (report_lines (scorer (score_cmd pdb_f run_dir))) unbound = Inr vars" and
    r: "return_terms vars = Inr en"
    by (auto simp add: calc_score_def Let_def split: if_splits sum.splits)
  from parse_report_bound [OF p] return_terms_bound [OF r] rc show ?thesis
    by (simp add: unbound_def)
qed

text \<open>
  Claim C6. \<^verbatim>\<open>calc_score\<close> returns the five terms only when the scorer exited with code
  zero and its report has a line with each of the two prefixes; with a non-zero exit
  code it raises \<^verbatim>\<open>Exception("calc_score failed")\<close>; and when the report lacks a line
  with one of the prefixes the call ends in an error (the read of the unbound local at
  the \<^verbatim>\<open>return\<close>, when nothing was raised before), never in a tuple of numbers.
\<close>

theorem calc_score_needs_complete_report:
  "(calc_score tf scorer pdb_f run_dir = Inr en \<longrightarrow>
      returncode (scorer (score_cmd pdb_f run_dir)) = 0 \<and>
      (\<exists>l \<in> set (report_lines (scorer (score_cmd pdb_f run_dir))). score_line l) \<and>
      (\<exists>l \<in> set (report_lines (scorer (score_cmd pdb_f run_dir))). terms_line l)) \<and>
   (returncode (scorer (score_cmd pdb_f run_dir)) \<noteq> 0 \<longrightarrow>
      calc_score tf scorer pdb_f run_dir = Inl (Exception ''calc_score failed'')) \<and>
   ((\<forall>l \<in> set (report_lines (scorer (score_cmd pdb_f run_dir))). \<not> score_line l) \<or>
    (\<forall>l \<in> set (report_lines (scorer (score_cmd pdb_f run_dir))). \<not> terms_line l) \<longrightarrow>
      (\<exists>err. calc_score tf scorer pdb_f run_dir = Inl err))"
proof (intro conjI impI)
  assume "calc_score tf scorer pdb_f run_dir = Inr en"
  from calc_score_Inr [OF this]
  show "returncode (scorer (score_cmd pdb_f run_dir)) = 0"
    and "\<exists>l \<in> set (report_lines (scorer (score_cmd pdb_f run_dir))). score_line l"
    and "\<exists>l \<in> set (report_lines (scorer (score_cmd pdb_f run_dir))). terms_line l"
    by simp_all
next
  assume "returncode (scorer (score_cmd pdb_f run_dir)) \<noteq> 0"
  then show "calc_score tf scorer pdb_f run_dir = Inl (Exception ''calc_score failed'')"
    by (simp add: calc_score_def Let_def)
next
  assume missing:
    "(\<forall>l \<in> set (report_lines (scorer (score_cmd pdb_f run_dir))). \<not> score_line l) \<or>
     (\<forall>l \<in> set (report_lines (scorer (score_cmd pdb_f run_dir))). \<not> terms_line l)"
  show "\<exists>err. calc_score tf scorer pdb_f run_dir = Inl err"
  proof (cases "calc_score tf scorer pdb_f run_dir")
    case (Inl err)
    then show ?thesis by simp
  next
    case (Inr en')
    from calc_score_Inr [OF this] missing show ?thesis by blast
  qed
qed

theorem calc_score_needs_complete_report_witness:
  "calc_score decimal good_scorer ''m1.pdb'' ''dir''
     = Inr \<lparr>en_score = Fl (- 12.5), en_vdw = Fl (- 3.5), en_elec = Fl (- 20), en_desolv = Fl 1,
            en_bsa = Fl 950\<rparr> \<and>
   (\<exists>l \<in> set (report_lines (good_scorer (score_cmd ''m1.pdb'' ''dir''))). terms_line l) \<and>
   calc_score decimal failing_scorer ''m1.pdb'' ''dir'' = Inl (Exception ''calc_score failed'') \<and>
   calc_score decimal silent_scorer ''m1.pdb'' ''dir'' = Inl (UnboundLocalError ''vdw'')"
proof -
  have good: "calc_score decimal good_scorer ''m1.pdb'' ''dir''
     = Inr \<lparr>en_score = Fl (- 12.5), en_vdw = Fl (- 3.5), en_elec = Fl (- 20), en_desolv = Fl 1,
            en_bsa = Fl 950\<rparr>"
    by (simp add: score_eval)
  have silent: "calc_score decimal silent_scorer ''m1.pdb'' ''dir'' = Inl (UnboundLocalError ''vdw'')"
    by (simp add: score_eval)
  have rc: "returncode (failing_scorer (score_cmd ''m1.pdb'' ''dir'')) \<noteq> 0"
    by (simp add: failing_scorer_def)
  from calc_score_needs_complete_report [of decimal good_scorer "''m1.pdb''" "''dir''"] good
  have "\<exists>l \<in> set (report_lines (good_scorer (score_cmd ''m1.pdb'' ''dir''))). terms_line l"
    by blast
  moreover
  from calc_score_needs_complete_report [of decimal failing_scorer "''m1.pdb''" "''dir''"] rc
  have "calc_score decimal failing_scorer ''m1.pdb'' ''dir'' = Inl (Exception ''calc_score failed'')"
    by blast
  ultimately show ?thesis using good silent by blast
qed

subsection \<open>Scan.run\<close>

lemmas scan_eval =
  scan_model_def scan_residue_def example_env_def example_model_def example_scan_def
  ori_score_of_def resname_dict_of_def res_key_def interface_residues_def path_name_def
  mutant_row_def scan_table_def table_header_def mutate_eval score_eval add_zscores_def
  series_std_def series_mean_def finite_vals_def

lemma scorer_calls_simps [simp]:
  "scorer_calls [] = []"
  "scorer_calls (Scored c # evs) = c # scorer_calls evs"
  "scorer_calls (WroteMutant f t # evs) = scorer_calls evs"
  "scorer_calls (Removed f # evs) = scorer_calls evs"
  "scorer_calls (WroteTable f h rows # evs) = scorer_calls evs"
  "scorer_calls (xs @ ys) = scorer_calls xs @ scorer_calls ys"
  by (simp_all add: scorer_calls_def)

lemma mutant_files_simps [simp]:
  "mutant_files [] = []"
  "mutant_files (Scored c # evs) = mutant_files evs"
  "mutant_files (WroteMutant f t # evs) = f # mutant_files evs"
  "mutant_files (Removed f # evs) = mutant_files evs"
  "mutant_files (WroteTable f h rows # evs) = mutant_files evs"
  "mutant_files (xs @ ys) = mutant_files xs @ mutant_files ys"
  by (simp_all add: mutant_files_def)

lemma scan_residue_skip:
  assumes "d (res_key ch r) = Some (scan_res self)"
  shows "scan_residue env self native ori_score n d sc_dir st (ch, r) = Inr (st\<lparr>current := Some n\<rparr>)"
  using assms by (simp add: scan_residue_def)

lemma scan_residue_mutated:
  assumes "scan_residue env self native ori_score n d sc_dir st (ch, r) = Inr st'"
    and "d (res_key ch r) \<noteq> Some (scan_res self)"
  shows "\<exists>row name text.
           scan_data st' = scan_data st @ [row] \<and> chain row = ch \<and> res row = r \<and>
           ori_resname row \<noteq> scan_res self \<and> end_resname row = scan_res self \<and>
           events st' =
             events st @ [WroteMutant name text, Scored (score_cmd name sc_dir), Removed name]"
  using assms
  by (auto simp add: scan_residue_def mutant_row_def
      split: option.splits sum.splits if_splits prod.splits)

lemma to_scan_Cons:
  "to_scan target d ((ch, r) # rest) =
     (if d (res_key ch r) = Some target then to_scan target d rest
      else (ch, r) # to_scan target d rest)"
  by (simp add: to_scan_def)

lemma scan_residues_result:
  assumes "scan_residues env self native ori_score n d sc_dir residues st = Inr st'"
  shows "map (\<lambda>row. (chain row, res row)) (scan_data st') =
           map (\<lambda>row. (chain row, res row)) (scan_data st) @ to_scan (scan_res self) d residues \<and>
         (\<forall>row \<in> set (scan_data st'). row \<in> set (scan_data st) \<or>
            ori_resname row \<noteq> scan_res self \<and> end_resname row = scan_res self) \<and>
         length (scorer_calls (events st')) =
           length (scorer_calls (events st)) + length (to_scan (scan_res self) d residues) \<and>
         length (mutant_files (events st')) =
           length (mutant_files (events st)) + length (to_scan (scan_res self) d residues)"
  using assms
proof (induction residues arbitrary: st)
  case Nil
  then show ?case by (simp add: to_scan_def)
next
  case (Cons cr residues)
  obtain ch r where cr: "cr = (ch, r)" by (cases cr)
  from Cons.prems obtain st1 where
    one: "scan_residue env self native ori_score n d sc_dir st (ch, r) = Inr st1" and
    rest: "scan_residues env self native ori_score n d sc_dir residues st1 = Inr st'"
    by (auto simp add: cr split: sum.splits)
  note IH = Cons.IH [OF rest]
  show ?case
  proof (cases "d (res_key ch r) = Some (scan_res self)")
    case True
    with one have "st1 = st\<lparr>current := Some n\<rparr>"
      by (simp add: scan_residue_skip)
    with IH True show ?thesis by (simp add: cr to_scan_Cons)
  next
    case False
    from scan_residue_mutated [OF one False] obtain row name content where
      "scan_data st1 = scan_data st @ [row]" "chain row = ch" "res row = r"
      "ori_resname row \<noteq> scan_res self" "end_resname row = scan_res self"
      "events st1 =
         events st @ [WroteMutant name content, Scored (score_cmd name sc_dir), Removed name]"
      by blast
    with IH False show ?thesis by (auto simp add: cr to_scan_Cons)
  qed
qed

lemma length_to_scan: "length (to_scan target d residues) \<le> length residues"
  by (simp add: to_scan_def)


lemma scan_table_keys:
  "map (\<lambda>row. (chain row, res row)) (scan_table data) = map (\<lambda>row. (chain row, res row)) data"
  unfolding scan_table_def
  by (rule map_zip_keep) (simp_all add: length_add_zscores)

lemma scan_table_row:
  assumes "row \<in> set (scan_table data)"
  shows "\<exists>row0 z. row0 \<in> set data \<and> row = row0\<lparr>z_score := z\<rparr>"
  using assms by (auto simp add: scan_table_def dest: set_zip_leftD)


lemma scan_model_state:
  assumes "scan_model env self native = Inr (df, evs)"
  shows "\<exists>ori_score n st.
           scan_residues env self native ori_score n
             (resname_dict_of (env_coord_keys env (rel_path native)))
             (''haddock3-score-'' @ str_int (core self))
             (interface_residues (env_identify_interface env (rel_path native)))
             \<lparr>scan_data = [], current = None,
              events = [Scored (score_cmd (rel_path native)
                                  (''haddock3-score-'' @ str_int (core self)))]\<rparr> = Inr st \<and>
           df = scan_table (scan_data st) \<and>
           evs = events st @ [WroteTable (''scan_'' @ file_name native @ ''.csv'')
                                (table_header (file_name native)) df]"
  using assms by (auto simp add: scan_model_def Let_def split: sum.splits)

lemma example_run:
  "\<exists>df evs. scan_model example_env example_scan example_model = Inr (df, evs)"
  by (simp add: scan_eval)

lemma example_to_scan:
  "to_scan (scan_res example_scan)
     (resname_dict_of (env_coord_keys example_env (rel_path example_model)))
     (interface_residues (env_identify_interface example_env (rel_path example_model)))
   = [(''A'', 12)]"
  by (simp add: to_scan_def example_scan_def example_env_def example_model_def
      resname_dict_of_def res_key_def interface_residues_def str_int_def str_nat.simps)

text \<open>
  Claim C8. For an interface residue whose original type equals the scan target type,
  the loop body of \<^verbatim>\<open>Scan.run\<close> only binds \<^verbatim>\<open>c_score, c_vdw, c_elec, c_des, c_bsa\<close> to the
  five terms of the native rescoring: no row is appended and nothing happens outside
  (no mutant file, no scorer call). Over a whole model the scorer is called once for the
  native structure and once for each interface residue of another type, and a mutant
  file is written for each of those only.
\<close>

theorem target_type_residue_not_rescored:
  "(d (res_key ch r) = Some (scan_res self) \<longrightarrow>
      scan_residue env self native ori_score n d sc_dir st (ch, r)
        = Inr (st\<lparr>current := Some n\<rparr>)) \<and>
   (scan_model env self native = Inr (df, evs) \<longrightarrow>
      length (scorer_calls evs) =
        1 + length (to_scan (scan_res self)
                      (resname_dict_of (env_coord_keys env (rel_path native)))
                      (interface_residues (env_identify_interface env (rel_path native)))) \<and>
      length (mutant_files evs) =
        length (to_scan (scan_res self)
                  (resname_dict_of (env_coord_keys env (rel_path native)))
                  (interface_residues (env_identify_interface env (rel_path native)))))"
proof (intro conjI impI)
  assume "d (res_key ch r) = Some (scan_res self)"
  then show "scan_residue env self native ori_score n d sc_dir st (ch, r)
               = Inr (st\<lparr>current := Some n\<rparr>)"
    by (rule scan_residue_skip)
next
  assume run: "scan_model env self native = Inr (df, evs)"
  from scan_model_state [OF run] obtain ori n' st' where
    loop: "scan_residues env self native ori n'
             (resname_dict_of (env_coord_keys env (rel_path native)))
             (''haddock3-score-'' @ str_int (core self))
             (interface_residues (env_identify_interface env (rel_path native)))
             \<lparr>scan_data = [], current = None,
              events = [Scored (score_cmd (rel_path native)
                                  (''haddock3-score-'' @ str_int (core self)))]\<rparr> = Inr st'" and
    evs: "evs = events st' @ [WroteTable (''scan_'' @ file_name native @ ''.csv'')
                                (table_header (file_name native)) df]"
    by blast
  from scan_residues_result [OF loop] evs
  show "length (scorer_calls evs) =
        1 + length (to_scan (scan_res self)
                      (resname_dict_of (env_coord_keys env (rel_path native)))
                      (interface_residues (env_identify_interface env (rel_path native))))"
    and "length (mutant_files evs) =
        length (to_scan (scan_res self)
                  (resname_dict_of (env_coord_keys env (rel_path native)))
                  (interface_residues (env_identify_interface env (rel_path native))))"
    by simp_all
qed

theorem target_type_residue_not_rescored_witness:
  "scan_residue example_env example_scan example_model (Fl (- 10))
      \<lparr>en_score = Fl 0, en_vdw = Fl 0, en_elec = Fl 0, en_desolv = Fl 0, en_bsa = Fl 0\<rparr>
      (resname_dict_of (env_coord_keys example_env ''m1.pdb'')) ''haddock3-score-0''
      \<lparr>scan_data = [], current = None, events = []\<rparr> (''A'', 11)
     = Inr \<lparr>scan_data = [],
            current = Some \<lparr>en_score = Fl 0, en_vdw = Fl 0, en_elec = Fl 0, en_desolv = Fl 0,
                            en_bsa = Fl 0\<rparr>,
            events = []\<rparr> \<and>
   (\<exists>df evs. scan_model example_env example_scan example_model = Inr (df, evs) \<and>
      length (interface_residues (env_identify_interface example_env (rel_path example_model))) = 2 \<and>
      length (scorer_calls evs) = 2 \<and> length (mutant_files evs) = 1)"
proof -
  have skip: "resname_dict_of (env_coord_keys example_env ''m1.pdb'') (res_key ''A'' 11)
                = Some (scan_res example_scan)"
    by (simp add: example_scan_def example_env_def resname_dict_of_def res_key_def str_int_def
        str_nat.simps)
  obtain df evs where run: "scan_model example_env example_scan example_model = Inr (df, evs)"
    using example_run by blast
  have two: "length (interface_residues (env_identify_interface example_env (rel_path example_model))) = 2"
    by (simp add: example_env_def interface_residues_def)
  from target_type_residue_not_rescored
         [of "resname_dict_of (env_coord_keys example_env ''m1.pdb'')" "''A''" 11 example_scan
             example_env example_model "Fl (- 10)"
             "\<lparr>en_score = Fl 0, en_vdw = Fl 0, en_elec = Fl 0, en_desolv = Fl 0, en_bsa = Fl 0\<rparr>"
             "''haddock3-score-0''" "\<lparr>scan_data = [], current = None, events = []\<rparr>" df evs]
       skip run two example_to_scan
  show ?thesis by simp
qed

text \<open>
  Claim C9. The table that \<^verbatim>\<open>Scan.run\<close> writes for a model has one row for each interface
  residue whose original type differs from the scan target type, in the order of the
  interface, and no other row: every row has an original type different from the target
  type, and there are at most as many rows as interface residues (fewer when a residue
  already is of the target type, for which nothing is written).
\<close>

theorem rows_only_for_mutated_residues:
  assumes "scan_model env self native = Inr (df, evs)"
  shows "map (\<lambda>row. (chain row, res row)) df =
           to_scan (scan_res self) (resname_dict_of (env_coord_keys env (rel_path native)))
             (interface_residues (env_identify_interface env (rel_path native))) \<and>
         (\<forall>row \<in> set df. ori_resname row \<noteq> scan_res self \<and> end_resname row = scan_res self) \<and>
         length df \<le> length (interface_residues (env_identify_interface env (rel_path native))) \<and>
         last evs = WroteTable (''scan_'' @ file_name native @ ''.csv'')
                      (table_header (file_name native)) df"
proof -
  from scan_model_state [OF assms] obtain ori n st where
    loop: "scan_residues env self native ori n
             (resname_dict_of (env_coord_keys env (rel_path native)))
             (''haddock3-score-'' @ str_int (core self))
             (interface_residues (env_identify_interface env (rel_path native)))
             \<lparr>scan_data = [], current = None,
              events = [Scored (score_cmd (rel_path native)
                                  (''haddock3-score-'' @ str_int (core self)))]\<rparr> = Inr st" and
    df: "df = scan_table (scan_data st)" and
    evs: "evs = events st @ [WroteTable (''scan_'' @ file_name native @ ''.csv'')
                                (table_header (file_name native)) df]"
    by blast
  note R = scan_residues_result [OF loop]
  have keys: "map (\<lambda>row. (chain row, res row)) df =
           to_scan (scan_res self) (resname_dict_of (env_coord_keys env (rel_path native)))
             (interface_residues (env_identify_interface env (rel_path native)))"
    using R by (simp add: df scan_table_keys)
  have types: "\<forall>row \<in> set df. ori_resname row \<noteq> scan_res self \<and> end_resname row = scan_res self"
  proof
    fix row assume "row \<in> set df"
    then obtain row0 z where "row0 \<in> set (scan_data st)" "row = row0\<lparr>z_score := z\<rparr>"
      using scan_table_row df by blast
    with R show "ori_resname row \<noteq> scan_res self \<and> end_resname row = scan_res self"
      by auto
  qed
  have "length df = length (map (\<lambda>row. (chain row, res row)) df)" by simp
  also have "\<dots> \<le> length (interface_residues (env_identify_interface env (rel_path native)))"
    unfolding keys by (rule length_to_scan)
  finally have len: "length df \<le> length (interface_residues (env_identify_interface env (rel_path native)))" .
  from keys types len evs show ?thesis by simp
qed

theorem rows_only_for_mutated_residues_witness:
  "\<exists>df evs. scan_model example_env example_scan example_model = Inr (df, evs) \<and>
      interface_residues (env_identify_interface example_env (rel_path example_model))
        = [(''A'', 11), (''A'', 12)] \<and>
      map (\<lambda>row. (chain row, res row)) df = [(''A'', 12)]"
proof -
  obtain df evs where run: "scan_model example_env example_scan example_model = Inr (df, evs)"
    using example_run by blast
  have two: "interface_residues (env_identify_interface example_env (rel_path example_model))
        = [(''A'', 11), (''A'', 12)]"
    by (simp add: example_env_def interface_residues_def)
  from rows_only_for_mutated_residues [OF run] run two example_to_scan
  show ?thesis by simp
qed

end
